theory Spec2Isabelle
  imports Main "HOL-Library.Word" "HOL-Library.List_Lexorder" "HOL-Library.Product_Lexorder"
    "HOL-Library.Multiset"
begin

unbundle bit_operations_syntax

section \<open>Common data: buffers and errors\<close>

text \<open>
  A Node.js \<^verbatim>\<open>Buffer\<close> is a list of bytes. \<^verbatim>\<open>Buffer.compare\<close> is the
  lexicographic order on unsigned bytes (a proper prefix is smaller), which is the order
  of \<^theory_text>\<open>List_Lexorder\<close> on \<^typ>\<open>8 word list\<close>.
\<close>

type_synonym bytes = "8 word list"

text \<open>
  Every \<^verbatim>\<open>throw\<close> of the modelled code is a value of this type. The first four
  are the \<^verbatim>\<open>Error\<close>s of \<^verbatim>\<open>setBFTParameters\<close>, told apart by their
  messages; \<open>StateRootNotDefined\<close> and \<open>ValidatorsHashNotDefined\<close> are those of
  the certificate computation, \<open>HashDoesNotExist\<close> that of the Merkle tree's
  \<^verbatim>\<open>getNode\<close>; \<open>NotFoundError\<close> is thrown by a store read of a missing key.
  \<^verbatim>\<open>TypeError\<close> and \<^verbatim>\<open>RangeError\<close> are raised by the JavaScript runtime
  (a property read on \<^verbatim>\<open>undefined\<close>, a Buffer access out of range).
  \<open>CollaboratorError\<close> stands for any other error an external collaborator throws.
  \<open>UndefinedRoot\<close> and \<open>LoopsForever\<close> mark two states of the Merkle tree's
  \<^verbatim>\<open>_build\<close> loop that no call reaches (see there).
\<close>

datatype error =
    InvalidValidatorsSize
  | InvalidBFTWeight
  | InvalidPrecommitThreshold
  | InvalidCertificateThreshold
  | BFTParameterNotFoundError
  | NotFoundError
  | StateRootNotDefined
  | ValidatorsHashNotDefined
  | HashDoesNotExist bytes
  | TypeError
  | RangeError
  | UndefinedRoot
  | LoopsForever
  | CollaboratorError string

section \<open>BFT module API (framework/src/modules/bft/api.ts)\<close>

subsection \<open>Data\<close>

text \<open>
  The block header fields the modelled functions read. Heights are JavaScript numbers
  holding integers; \<open>stateRoot\<close> and \<open>validatorsHash\<close> are optional in the source.
  A field is named as in the source, after a prefix for its record (\<open>bh_\<close> for
  \<open>BlockHeader\<close>, \<open>bv_\<close> for \<open>BFTVotes\<close>, and so on), since the records share
  field names.
\<close>

record BlockHeader =
  bh_id :: bytes
  bh_height :: int
  bh_generatorAddress :: bytes
  bh_maxHeightGenerated :: int
  bh_maxHeightPrevoted :: int
  bh_timestamp :: int
  bh_stateRoot :: "bytes option"
  bh_validatorsHash :: "bytes option"

record BlockBFTInfo =
  bi_height :: int
  bi_generatorAddress :: bytes
  bi_maxHeightGenerated :: int
  bi_maxHeightPrevoted :: int

record BFTVotesActiveValidatorsVoteInfo =
  av_address :: bytes
  av_minActiveHeight :: int
  av_largestHeightPrecommit :: int

record BFTVotes =
  bv_maxHeightPrevoted :: int
  bv_maxHeightPrecommitted :: int
  bv_maxHeightCertified :: int
  bv_blockBFTInfos :: "BlockBFTInfo list"
  bv_activeValidatorsVoteInfo :: "BFTVotesActiveValidatorsVoteInfo list"

record Validator =
  va_address :: bytes
  va_bftWeight :: int

record BFTParameters =
  bp_prevoteThreshold :: int
  bp_precommitThreshold :: int
  bp_certificateThreshold :: int
  bp_validators :: "Validator list"
  bp_validatorsHash :: bytes

record ValidatorsHashInfo =
  vh_blsKey :: bytes
  vh_bftWeight :: int

record ValidatorsHashInput =
  vi_activeValidators :: "ValidatorsHashInfo list"
  vi_certificateThreshold :: int

text \<open>
  The two stores of the module: the parameters store, keyed by the height the entry takes
  effect at (the source encodes the key with \<^verbatim>\<open>intToBuffer(height, 4, BIG_ENDIAN)\<close>),
  and the votes store, which holds one \<open>BFTVotes\<close> under \<^verbatim>\<open>EMPTY_KEY\<close> or nothing.
\<close>

record BFTStores =
  paramsStore :: "int \<rightharpoonup> BFTParameters"
  votesStore :: "BFTVotes option"

text \<open>
  What \<^verbatim>\<open>BFTAPI\<close> is initialised with: the batch size, the validators API
  (\<^verbatim>\<open>getValidatorAccount\<close>, of which only the BLS key is read; it returns the
  key or throws an error of its own, given here by its message) and the external
  \<^verbatim>\<open>hash(codec.encode(validatorsHashInputSchema, input))\<close>.
\<close>

record BFTAPI =
  batchSize :: int
  getValidatorAccount :: "bytes \<Rightarrow> string + bytes"
  hashValidatorsHashInput :: "ValidatorsHashInput \<Rightarrow> bytes"

subsection \<open>areHeadersContradicting\<close>

text \<open>
  Modelled from the spec: \<^verbatim>\<open>areDistinctHeadersContradicting\<close> is imported from
  \<^verbatim>\<open>./utils\<close> of the BFT module, which is not among the sources. The spec's
  contradiction rule: two distinct headers from the same generator contradict iff either
  (a) both declare the same height, or (b) header A's previously-forged height is \<open>\<ge>\<close>
  header B's height while A's height is also \<open>\<ge>\<close> B's max height previously prevoted.
  The rule is stated of a pair of headers, so A and B stand for the two headers in either
  order; \<open>couldNotHaveFollowed\<close> is clause (b) for one order.
\<close>

definition couldNotHaveFollowed :: "BlockHeader \<Rightarrow> BlockHeader \<Rightarrow> bool" where
  "couldNotHaveFollowed a b =
     (bh_height b \<le> bh_maxHeightGenerated a \<and> bh_maxHeightPrevoted b \<le> bh_height a)"

definition areDistinctHeadersContradicting :: "BlockHeader \<Rightarrow> BlockHeader \<Rightarrow> bool" where
  "areDistinctHeadersContradicting b1 b2 =
     (bh_generatorAddress b1 = bh_generatorAddress b2 \<and>
      (bh_height b1 = bh_height b2 \<or> couldNotHaveFollowed b1 b2 \<or> couldNotHaveFollowed b2 b1))"

definition areHeadersContradicting :: "BlockHeader \<Rightarrow> BlockHeader \<Rightarrow> bool" where
  "areHeadersContradicting bftHeader1 bftHeader2 =
     (if bh_id bftHeader1 = bh_id bftHeader2 then False
      else areDistinctHeadersContradicting bftHeader1 bftHeader2)"

subsection \<open>impliesMaximalPrevotes\<close>

text \<open>
  \<^verbatim>\<open>xs[i]\<close> of JavaScript: \<^verbatim>\<open>undefined\<close> (here \<open>None\<close>) outside the array.
\<close>

definition js_index :: "'a list \<Rightarrow> int \<Rightarrow> 'a option" where
  "js_index xs i = (if 0 \<le> i \<and> i < int (length xs) then Some (xs ! nat i) else None)"

text \<open>
  \<^verbatim>\<open>getWithSchema\<close> on the votes store throws when nothing is stored. The
  destructuring \<^verbatim>\<open>const [lastHeader] = bftVotes.blockBFTInfos\<close> yields
  \<^verbatim>\<open>undefined\<close> on an empty list, and the read \<^verbatim>\<open>lastHeader.height\<close> that
  follows throws a \<^verbatim>\<open>TypeError\<close>; so does \<^verbatim>\<open>.generatorAddress\<close> on an
  element read outside the list.
\<close>

definition impliesMaximalPrevotes :: "BFTStores \<Rightarrow> BlockHeader \<Rightarrow> error + bool" where
  "impliesMaximalPrevotes s header =
     (case votesStore s of
        None \<Rightarrow> Inl NotFoundError
      | Some bftVotes \<Rightarrow>
          (case bv_blockBFTInfos bftVotes of
             [] \<Rightarrow> Inl TypeError
           | lastHeader # _ \<Rightarrow>
               if bh_height header \<noteq> bi_height lastHeader + 1 then Inr False
               else
                 let previousHeight = bh_maxHeightGenerated header in
                 if bh_height header \<le> previousHeight then Inr False
                 else
                   let offset = bi_height lastHeader - previousHeight in
                   if int (length (bv_blockBFTInfos bftVotes)) \<le> offset then Inr True
                   else
                     (case js_index (bv_blockBFTInfos bftVotes) offset of
                        None \<Rightarrow> Inl TypeError
                      | Some info \<Rightarrow>
                          if bi_generatorAddress info \<noteq> bh_generatorAddress header
                          then Inr False
                          else Inr True)))"

subsection \<open>setBFTParameters\<close>

text \<open>
  \<^verbatim>\<open>a / b\<close> on \<^verbatim>\<open>bigint\<close> truncates towards zero (the divisor is the
  literal 3 everywhere it is used here).
\<close>

definition bigint_div :: "int \<Rightarrow> int \<Rightarrow> int" where
  "bigint_div a b = sgn a * sgn b * (\<bar>a\<bar> div \<bar>b\<bar>)"

text \<open>
  The first loop of \<^verbatim>\<open>setBFTParameters\<close>: it sums the weights from
  \<^verbatim>\<open>BigInt(0)\<close> and throws at the first weight that is not positive.
\<close>

fun aggregateWeights :: "Validator list \<Rightarrow> int \<Rightarrow> error + int" where
  "aggregateWeights [] aggregateBFTWeight = Inr aggregateBFTWeight"
| "aggregateWeights (validator # rest) aggregateBFTWeight =
     (if va_bftWeight validator \<le> 0 then Inl InvalidBFTWeight
      else aggregateWeights rest (aggregateBFTWeight + va_bftWeight validator))"

text \<open>
  Modelled from the spec: \<^verbatim>\<open>sortValidatorsByBLSKey\<close> is imported from
  \<^verbatim>\<open>./utils\<close> of the BFT module, which is not among the sources. The spec has the
  hash taken over the \<open>{blsKey, weight}\<close> list "canonically sorted (by BLS-key
  bytes)", and has the hash the same for every order of the input. So the list is put in
  ascending order of the key bytes, and the order is canonical: one order for each
  collection of entries, in whatever order they come. The order of the keys leaves open
  where entries of equal key go; they are put in the order of their weights, the one
  other field of an entry, so that the result depends on the entries alone.
\<close>

definition sortValidatorsByBLSKey :: "ValidatorsHashInfo list \<Rightarrow> ValidatorsHashInfo list" where
  "sortValidatorsByBLSKey xs = sort_key (\<lambda>e. (vh_blsKey e, vh_bftWeight e)) xs"

text \<open>
  Modelled from the spec: \<^verbatim>\<open>sortValidatorsByAddress\<close> is imported from the same
  \<^verbatim>\<open>./utils\<close>. The spec has the validators and the active validators sorted by
  address; it is modelled as a stable sort on the address bytes, for the two element
  types it is called with.
\<close>

definition sortValidatorsByAddress :: "Validator list \<Rightarrow> Validator list" where
  "sortValidatorsByAddress xs = sort_key va_address xs"

definition sortVoteInfosByAddress ::
  "BFTVotesActiveValidatorsVoteInfo list \<Rightarrow> BFTVotesActiveValidatorsVoteInfo list" where
  "sortVoteInfosByAddress xs = sort_key av_address xs"

text \<open>
  The loop of \<^verbatim>\<open>_computeValidatorsHash\<close>: one account lookup per validator, in
  input order; the first lookup that throws ends the call.
\<close>

fun resolveActiveValidators :: "BFTAPI \<Rightarrow> Validator list \<Rightarrow> error + ValidatorsHashInfo list" where
  "resolveActiveValidators api [] = Inr []"
| "resolveActiveValidators api (validator # rest) =
     (case getValidatorAccount api (va_address validator) of
        Inl message \<Rightarrow> Inl (CollaboratorError message)
      | Inr blsKey \<Rightarrow>
          (case resolveActiveValidators api rest of
             Inl e \<Rightarrow> Inl e
           | Inr infos \<Rightarrow>
               Inr (\<lparr>vh_blsKey = blsKey, vh_bftWeight = va_bftWeight validator\<rparr> # infos)))"

text \<open>The value handed to \<^verbatim>\<open>codec.encode\<close> and then to \<^verbatim>\<open>hash\<close>.\<close>

definition validatorsHashInput ::
  "BFTAPI \<Rightarrow> Validator list \<Rightarrow> int \<Rightarrow> error + ValidatorsHashInput" where
  "validatorsHashInput api vs certThreshold =
     (case resolveActiveValidators api vs of
        Inl e \<Rightarrow> Inl e
      | Inr activeValidators \<Rightarrow>
          Inr \<lparr>vi_activeValidators = sortValidatorsByBLSKey activeValidators,
               vi_certificateThreshold = certThreshold\<rparr>)"

definition computeValidatorsHash :: "BFTAPI \<Rightarrow> Validator list \<Rightarrow> int \<Rightarrow> error + bytes" where
  "computeValidatorsHash api vs certThreshold =
     (case validatorsHashInput api vs certThreshold of
        Inl e \<Rightarrow> Inl e
      | Inr input \<Rightarrow> Inr (hashValidatorsHashInput api input))"

text \<open>
  One step of the last loop of \<^verbatim>\<open>setBFTParameters\<close>: a validator that is already
  active keeps its vote info, a new one starts at \<open>nextHeight\<close>.
\<close>

definition nextActiveValidator ::
  "BFTVotes \<Rightarrow> int \<Rightarrow> Validator \<Rightarrow> BFTVotesActiveValidatorsVoteInfo" where
  "nextActiveValidator bftVotes nextHeight validator =
     (case find (\<lambda>v. av_address v = va_address validator) (bv_activeValidatorsVoteInfo bftVotes) of
        Some existingValidator \<Rightarrow> existingValidator
      | None \<Rightarrow>
          \<lparr>av_address = va_address validator,
           av_minActiveHeight = nextHeight,
           av_largestHeightPrecommit = nextHeight - 1\<rparr>)"

text \<open>
  The height the new parameters take effect at: one above the latest recorded block, or
  \<open>maxHeightPrevoted\<close> when no block is recorded (\<^verbatim>\<open>const nextHeight = ...\<close>).
\<close>

definition nextHeightOf :: "BFTVotes \<Rightarrow> int" where
  "nextHeightOf bftVotes =
     (case bv_blockBFTInfos bftVotes of
        [] \<Rightarrow> bv_maxHeightPrevoted bftVotes
      | info # _ \<Rightarrow> bi_height info + 1)"

text \<open>
  The call returns its result (an error or nothing) and the stores as the call leaves
  them. The stores are read and written in the order of the source: all four checks and
  the hash come first, then the votes store is read, then the parameters store and the
  votes store are written.
\<close>

definition setBFTParameters ::
  "BFTAPI \<Rightarrow> BFTStores \<Rightarrow> int \<Rightarrow> int \<Rightarrow> Validator list \<Rightarrow> (error + unit) \<times> BFTStores" where
  "setBFTParameters api s precommit certificate vs =
     (if batchSize api < int (length vs) then (Inl InvalidValidatorsSize, s)
      else
        (case aggregateWeights vs 0 of
           Inl e \<Rightarrow> (Inl e, s)
         | Inr aggregateBFTWeight \<Rightarrow>
             if precommit < bigint_div aggregateBFTWeight 3 + 1 \<or> aggregateBFTWeight < precommit
             then (Inl InvalidPrecommitThreshold, s)
             else if certificate < bigint_div aggregateBFTWeight 3 + 1 \<or> aggregateBFTWeight < certificate
             then (Inl InvalidCertificateThreshold, s)
             else
               (case computeValidatorsHash api vs certificate of
                  Inl e \<Rightarrow> (Inl e, s)
                | Inr vhash \<Rightarrow>
                    let sorted = sortValidatorsByAddress vs;
                        bftParams =
                          \<lparr>bp_prevoteThreshold = bigint_div (2 * aggregateBFTWeight) 3 + 1,
                           bp_precommitThreshold = precommit,
                           bp_certificateThreshold = certificate,
                           bp_validators = sorted,
                           bp_validatorsHash = vhash\<rparr>
                    in
                      (case votesStore s of
                         None \<Rightarrow> (Inl NotFoundError, s)
                       | Some bftVotes \<Rightarrow>
                           let nextHeight = nextHeightOf bftVotes;
                               s1 = s\<lparr>paramsStore := (paramsStore s)(nextHeight \<mapsto> bftParams)\<rparr>;
                               nextActiveValidators =
                                 map (nextActiveValidator bftVotes nextHeight) sorted;
                               bftVotes1 =
                                 bftVotes\<lparr>bv_activeValidatorsVoteInfo :=
                                   sortVoteInfosByAddress nextActiveValidators\<rparr>
                           in (Inr (), s1\<lparr>votesStore := Some bftVotes1\<rparr>)))))"

section \<open>Commit pool and certificates (consensus engine)\<close>

subsection \<open>Data\<close>

record BFTHeights =
  he_maxHeightPrevoted :: int
  he_maxHeightPrecommitted :: int
  he_maxHeightCertified :: int

record AggregateCommit =
  ac_height :: int
  ac_aggregationBits :: bytes
  ac_certificateSignature :: bytes

record Certificate =
  ce_blockID :: bytes
  ce_height :: int
  ce_stateRoot :: bytes
  ce_timestamp :: int
  ce_validatorsHash :: bytes
  ce_aggregationBits :: "bytes option"
  ce_signature :: "bytes option"

record WeightedKey =
  wk_weight :: int
  wk_blsKey :: bytes

text \<open>
  What a \<^verbatim>\<open>CommitPool\<close> is configured with, as the interfaces it calls: the BFT
  API (heights, next parameters height, parameters at a height), the validators API, the
  chain (block header by height, network identifier), and the external codec and
  signature scheme. The API context is only read, so each call is a function of its
  arguments that returns a value or throws.
\<close>

record CommitPoolConfig =
  cp_getBFTHeights :: "error + BFTHeights"
  cp_getNextHeightBFTParameters :: "int \<Rightarrow> error + int"
  cp_getBFTParameters :: "int \<Rightarrow> error + BFTParameters"
  cp_getValidatorAccount :: "bytes \<Rightarrow> error + bytes"
  cp_getBlockHeaderByHeight :: "int \<Rightarrow> error + BlockHeader"
  cp_networkIdentifier :: bytes
  cp_MESSAGE_TAG_CERTIFICATE :: bytes
  cp_encodeCertificate :: "Certificate \<Rightarrow> bytes"
  cp_verifyWeightedAggSig ::
    "bytes list \<Rightarrow> bytes \<Rightarrow> bytes \<Rightarrow> bytes \<Rightarrow> bytes \<Rightarrow> bytes \<Rightarrow> int list \<Rightarrow> int \<Rightarrow> bool"

subsection \<open>Certificate utilities\<close>

text \<open>
  \<^verbatim>\<open>!blockHeader.stateRoot\<close> holds of \<^verbatim>\<open>undefined\<close> only: a Buffer, even an
  empty one, is an object.
\<close>

definition computeCertificateFromBlockHeader :: "BlockHeader \<Rightarrow> error + Certificate" where
  "computeCertificateFromBlockHeader blockHeader =
     (case bh_stateRoot blockHeader of
        None \<Rightarrow> Inl StateRootNotDefined
      | Some sroot \<Rightarrow>
          (case bh_validatorsHash blockHeader of
             None \<Rightarrow> Inl ValidatorsHashNotDefined
           | Some vhash \<Rightarrow>
               Inr \<lparr>ce_blockID = bh_id blockHeader,
                    ce_height = bh_height blockHeader,
                    ce_stateRoot = sroot,
                    ce_timestamp = bh_timestamp blockHeader,
                    ce_validatorsHash = vhash,
                    ce_aggregationBits = None,
                    ce_signature = None\<rparr>))"

definition verifyAggregateCertificateSignature ::
  "CommitPoolConfig \<Rightarrow> bytes list \<Rightarrow> int list \<Rightarrow> int \<Rightarrow> bytes \<Rightarrow> Certificate \<Rightarrow> bool" where
  "verifyAggregateCertificateSignature cfg keysList weights threshold networkId certificate =
     (case ce_aggregationBits certificate of
        None \<Rightarrow> False
      | Some aggregationBits \<Rightarrow>
          (case ce_signature certificate of
             None \<Rightarrow> False
           | Some signature \<Rightarrow>
               let message =
                     cp_encodeCertificate cfg
                       (certificate\<lparr>ce_aggregationBits := None, ce_signature := None\<rparr>)
               in cp_verifyWeightedAggSig cfg keysList aggregationBits signature
                    (cp_MESSAGE_TAG_CERTIFICATE cfg) networkId message weights threshold))"

subsection \<open>getSortedWeightsAndValidatorKeys\<close>

text \<open>
  The function works on arrays, which JavaScript passes by reference, so it is modelled
  over a heap of arrays: \<open>h_arrays\<close> maps a reference to the array's elements, and
  \<open>h_next\<close> is the next reference to hand out. \<^verbatim>\<open>map\<close> allocates a new array,
  \<^verbatim>\<open>sort\<close> rewrites an array in place. The elements are held by value: the function
  writes no field of any element.
\<close>

record heap =
  h_arrays :: "nat \<rightharpoonup> WeightedKey list"
  h_next :: nat

definition heap_alloc :: "heap \<Rightarrow> WeightedKey list \<Rightarrow> nat \<times> heap" where
  "heap_alloc h xs = (h_next h, h\<lparr>h_arrays := (h_arrays h)(h_next h \<mapsto> xs), h_next := Suc (h_next h)\<rparr>)"

text \<open>
  \<^verbatim>\<open>arr.sort((a, b) => a.blsKey.compare(b.blsKey))\<close>: in place, stable, ascending
  in the byte order of the keys.
\<close>

definition Array_sort_byBlsKey :: "heap \<Rightarrow> nat \<Rightarrow> heap" where
  "Array_sort_byBlsKey h r =
     (case h_arrays h r of
        None \<Rightarrow> h
      | Some xs \<Rightarrow> h\<lparr>h_arrays := (h_arrays h)(r \<mapsto> sort_key wk_blsKey xs)\<rparr>)"

text \<open>
  The call takes the heap and the reference of the caller's array; it returns the two
  new arrays (weights, validatorKeys) and the heap it leaves.
  \<^verbatim>\<open>o => ({ ...o })\<close> copies each element.
\<close>

definition getSortedWeightsAndValidatorKeys ::
  "heap \<Rightarrow> nat \<Rightarrow> (error + int list \<times> bytes list) \<times> heap" where
  "getSortedWeightsAndValidatorKeys h param =
     (case h_arrays h param of
        None \<Rightarrow> (Inl TypeError, h)
      | Some validatorKeysWithWeightsParam \<Rightarrow>
          let (r, h1) = heap_alloc h (map (\<lambda>entry. entry) validatorKeysWithWeightsParam);
              h2 = Array_sort_byBlsKey h1 r
          in
            (case h_arrays h2 r of
               None \<Rightarrow> (Inl TypeError, h2)
             | Some validatorKeysWithWeights \<Rightarrow>
                 (Inr (map wk_weight validatorKeysWithWeights,
                       map wk_blsKey validatorKeysWithWeights), h2)))"

text \<open>
  A caller that builds its array locally and drops it after the call sees only the
  returned arrays: the call on a heap that holds nothing else.
\<close>

definition sortedWeightsAndValidatorKeys :: "WeightedKey list \<Rightarrow> error + int list \<times> bytes list" where
  "sortedWeightsAndValidatorKeys xs =
     fst (getSortedWeightsAndValidatorKeys \<lparr>h_arrays = [0 \<mapsto> xs], h_next = 1\<rparr> 0)"

subsection \<open>CommitPool.verifyAggregateCommit\<close>

text \<open>The loop that resolves the BLS key of every validator of the parameters.\<close>

fun resolveKeysWithWeights :: "CommitPoolConfig \<Rightarrow> Validator list \<Rightarrow> error + WeightedKey list" where
  "resolveKeysWithWeights cfg [] = Inr []"
| "resolveKeysWithWeights cfg (validator # rest) =
     (case cp_getValidatorAccount cfg (va_address validator) of
        Inl e \<Rightarrow> Inl e
      | Inr blsKey \<Rightarrow>
          (case resolveKeysWithWeights cfg rest of
             Inl e \<Rightarrow> Inl e
           | Inr keys \<Rightarrow> Inr (\<lparr>wk_weight = va_bftWeight validator, wk_blsKey = blsKey\<rparr> # keys)))"

text \<open>
  The part of \<^verbatim>\<open>verifyAggregateCommit\<close> after its gates, from
  \<^verbatim>\<open>getBlockHeaderByHeight\<close> to the end: the certificate is recomputed from the
  block header, and the aggregate signature is verified against the validators and the
  certificate threshold of the parameters at the commit's height.
\<close>

definition verifyCommitCertificate :: "CommitPoolConfig \<Rightarrow> AggregateCommit \<Rightarrow> error + bool" where
  "verifyCommitCertificate cfg aggregateCommit =
     (case cp_getBlockHeaderByHeight cfg (ac_height aggregateCommit) of
        Inl e \<Rightarrow> Inl e
      | Inr blockHeader \<Rightarrow>
          (case computeCertificateFromBlockHeader blockHeader of
             Inl e \<Rightarrow> Inl e
           | Inr computed \<Rightarrow>
               let certificate =
                     computed\<lparr>ce_aggregationBits := Some (ac_aggregationBits aggregateCommit),
                              ce_signature := Some (ac_certificateSignature aggregateCommit)\<rparr>
               in
                 (case cp_getBFTParameters cfg (ac_height aggregateCommit) of
                    Inl e \<Rightarrow> Inl e
                  | Inr bftParams \<Rightarrow>
                      (case resolveKeysWithWeights cfg (bp_validators bftParams) of
                         Inl e \<Rightarrow> Inl e
                       | Inr validatorKeysWithWeights \<Rightarrow>
                           (case sortedWeightsAndValidatorKeys validatorKeysWithWeights of
                              Inl e \<Rightarrow> Inl e
                            | Inr (weights, validatorKeys) \<Rightarrow>
                                Inr (verifyAggregateCertificateSignature cfg validatorKeys weights
                                       (bp_certificateThreshold bftParams)
                                       (cp_networkIdentifier cfg) certificate))))))"

text \<open>
  The gates, in the order of the source. The \<^verbatim>\<open>try\<close> block holds the lookup of
  the next parameters height and the comparison; its \<^verbatim>\<open>catch\<close> clause is empty
  and names no error class, so whatever the lookup throws is dropped and the call goes
  on to the certificate.
\<close>

definition verifyAggregateCommit :: "CommitPoolConfig \<Rightarrow> AggregateCommit \<Rightarrow> error + bool" where
  "verifyAggregateCommit cfg aggregateCommit =
     (case cp_getBFTHeights cfg of
        Inl e \<Rightarrow> Inl e
      | Inr heights \<Rightarrow>
          if ac_aggregationBits aggregateCommit = [] \<and>
             ac_certificateSignature aggregateCommit = [] \<and>
             ac_height aggregateCommit = he_maxHeightCertified heights
          then Inr True
          else if ac_aggregationBits aggregateCommit = [] \<or>
                  ac_certificateSignature aggregateCommit = []
          then Inr False
          else if ac_height aggregateCommit \<le> he_maxHeightCertified heights then Inr False
          else if he_maxHeightPrecommitted heights < ac_height aggregateCommit then Inr False
          else
            (case cp_getNextHeightBFTParameters cfg (he_maxHeightCertified heights + 1) of
               Inr heightNextBFTParameters \<Rightarrow>
                 if heightNextBFTParameters - 1 < ac_height aggregateCommit then Inr False
                 else verifyCommitCertificate cfg aggregateCommit
             | Inl _ \<Rightarrow> verifyCommitCertificate cfg aggregateCommit))"

section \<open>Merkle tree (elements/lisk-tree/src/merkle_tree.ts)\<close>

subsection \<open>Data\<close>

text \<open>
  What the module imports: \<^verbatim>\<open>hash\<close> of the cryptography package, and the
  constants \<^verbatim>\<open>EMPTY_HASH\<close>, \<^verbatim>\<open>LEAF_PREFIX\<close> and \<^verbatim>\<open>BRANCH_PREFIX\<close> of
  \<^verbatim>\<open>./constants\<close>, which is not among the sources; they are parameters of the
  model.
\<close>

record MerkleEnv =
  hash :: "bytes \<Rightarrow> bytes"
  EMPTY_HASH :: bytes
  LEAF_PREFIX :: bytes
  BRANCH_PREFIX :: bytes

text \<open>
  The fields of the class: \<^verbatim>\<open>_root\<close>, \<^verbatim>\<open>_width\<close> and the object
  \<^verbatim>\<open>_hashToBuffer\<close>, whose keys are the hashes (as binary strings) and whose values
  are the node values.
\<close>

record MerkleTree =
  root :: bytes
  width :: nat
  hashToBuffer :: "bytes \<rightharpoonup> bytes"

datatype NodeType = ROOT | BRANCH | LEAF

record NodeData =
  nd_value :: bytes
  nd_hash :: bytes

record NodeInfo =
  ni_type :: NodeType
  ni_hash :: bytes
  ni_value :: bytes
  ni_leftHash :: bytes
  ni_rightHash :: bytes
  ni_layerIndex :: int
  ni_nodeIndex :: int

subsection \<open>Buffer operations\<close>

text \<open>
  \<^verbatim>\<open>buf.slice(start, end)\<close>: a negative index counts from the end, and both are
  clamped to the buffer.
\<close>

definition Buffer_slice :: "bytes \<Rightarrow> int \<Rightarrow> int \<Rightarrow> bytes" where
  "Buffer_slice buf start stop =
     (let len = int (length buf);
          s = (if start < 0 then max (len + start) 0 else min start len);
          e = (if stop < 0 then max (len + stop) 0 else min stop len)
      in take (nat (e - s)) (drop (nat s) buf))"

definition Buffer_slice_from :: "bytes \<Rightarrow> int \<Rightarrow> bytes" where
  "Buffer_slice_from buf start = Buffer_slice buf start (int (length buf))"

text \<open>
  The integer reads and writes throw a \<^verbatim>\<open>RangeError\<close> when the offset leaves the
  buffer or the value does not fit.
\<close>

definition readInt8 :: "bytes \<Rightarrow> nat \<Rightarrow> error + int" where
  "readInt8 buf offset =
     (if length buf < offset + 1 then Inl RangeError else Inr (sint (buf ! offset)))"

definition bigEndian :: "bytes \<Rightarrow> int" where
  "bigEndian bs = foldl (\<lambda>acc b. acc * 256 + uint b) 0 bs"

definition readBigInt64BE :: "bytes \<Rightarrow> nat \<Rightarrow> error + int" where
  "readBigInt64BE buf offset =
     (if length buf < offset + 8 then Inl RangeError
      else
        let n = bigEndian (take 8 (drop offset buf))
        in Inr (if 2 ^ 63 \<le> n then n - 2 ^ 64 else n))"

definition writeInt8 :: "int \<Rightarrow> error + bytes" where
  "writeInt8 v = (if v < - 128 \<or> 127 < v then Inl RangeError else Inr [word_of_int v])"

definition writeBigInt64BE :: "int \<Rightarrow> error + bytes" where
  "writeBigInt64BE v =
     (if v < - (2 ^ 63) \<or> 2 ^ 63 \<le> v then Inl RangeError
      else Inr (map (\<lambda>i. word_of_int (v div 2 ^ (8 * i))) [7, 6, 5, 4, 3, 2, 1, 0]))"

text \<open>
  A Buffer is an object, so \<^verbatim>\<open>if (buf)\<close> takes the branch whatever the bytes are,
  also for an empty buffer.
\<close>

definition Buffer_truthy :: "bytes \<Rightarrow> bool" where
  "Buffer_truthy buf = True"

subsection \<open>Helpers of the module\<close>

definition isLeaf :: "MerkleEnv \<Rightarrow> bytes \<Rightarrow> bool" where
  "isLeaf env v = (LEAF_PREFIX env = Buffer_slice v 0 1 \<and> v \<noteq> [])"

text \<open>
  The operands of \<^verbatim>\<open>|\<close> and \<^verbatim>\<open>&\<close> are converted to 32-bit integers. For
  \<open>layer < 1\<close> the multiplier \<^verbatim>\<open>2 ** (layer - 1)\<close> is a fraction below 1, which
  converts to 0, so the conjunction is 0.
\<close>

definition toInt32 :: "int \<Rightarrow> int" where
  "toInt32 x = signed_take_bit 31 x"

definition isAppendPath :: "int \<Rightarrow> int \<Rightarrow> bool" where
  "isAppendPath dataLength layer =
     (if layer < 1 then False
      else
        let multiplier = 2 ^ nat (layer - 1)
        in (toInt32 dataLength OR toInt32 (multiplier - 1)) AND toInt32 multiplier \<noteq> 0)"

text \<open>
  \<^verbatim>\<open>Math.ceil(Math.log2(w))\<close> for a width \<open>w \<ge> 1\<close> (the logarithm of a power of
  two is exact). The height is only asked for after a leaf has been added.
\<close>

fun ceilLog2 :: "nat \<Rightarrow> nat" where
  "ceilLog2 w = (if w \<le> 1 then 0 else Suc (ceilLog2 ((w + 1) div 2)))"

declare ceilLog2.simps [simp del]

definition getHeight :: "MerkleTree \<Rightarrow> int" where
  "getHeight t = int (ceilLog2 (width t)) + 1"

subsection \<open>getNode, \_generateLeaf, \_generateNode\<close>

text \<open>
  \<^verbatim>\<open>getNode\<close> throws when the hash is not a key of \<^verbatim>\<open>_hashToBuffer\<close>. Of a
  branch it reads the layer index at offset 0 and the node index at offset 1 of the
  stored value.
\<close>

definition getNode :: "MerkleEnv \<Rightarrow> MerkleTree \<Rightarrow> bytes \<Rightarrow> error + NodeInfo" where
  "getNode env t h =
     (case hashToBuffer t h of
        None \<Rightarrow> Inl (HashDoesNotExist h)
      | Some v \<Rightarrow>
          let ty = (if root t = h then ROOT else if isLeaf env v then LEAF else BRANCH) in
          (case (if ty = BRANCH then readInt8 v 0 else Inr 0) of
             Inl e \<Rightarrow> Inl e
           | Inr layerIndex \<Rightarrow>
               (case (if ty = BRANCH then readBigInt64BE v 1 else Inr 0) of
                  Inl e \<Rightarrow> Inl e
                | Inr nodeIndex \<Rightarrow>
                    Inr \<lparr>ni_type = ty,
                         ni_hash = h,
                         ni_value = v,
                         ni_leftHash = (if ty \<noteq> LEAF then Buffer_slice v (- 64) (- 32) else []),
                         ni_rightHash = (if ty \<noteq> LEAF then Buffer_slice_from v (- 32) else []),
                         ni_layerIndex = layerIndex,
                         ni_nodeIndex = nodeIndex\<rparr>)))"

text \<open>\<^verbatim>\<open>_generateLeaf\<close> stores the leaf and adds one to the width.\<close>

definition generateLeaf :: "MerkleEnv \<Rightarrow> MerkleTree \<Rightarrow> bytes \<Rightarrow> NodeData \<times> MerkleTree" where
  "generateLeaf env t v =
     (let leafValue = LEAF_PREFIX env @ v;
          leafHash = hash env leafValue
      in (\<lparr>nd_value = leafValue, nd_hash = hash env leafValue\<rparr>,
          t\<lparr>hashToBuffer := (hashToBuffer t)(leafHash \<mapsto> leafValue), width := width t + 1\<rparr>))"

text \<open>
  \<^verbatim>\<open>_generateNode\<close>: the value holds the prefix, the layer index, the node index
  and the two child hashes; the hash is taken of the prefix and the two child hashes.
\<close>

definition generateNode ::
  "MerkleEnv \<Rightarrow> MerkleTree \<Rightarrow> bytes \<Rightarrow> bytes \<Rightarrow> int \<Rightarrow> int \<Rightarrow> (error + NodeData) \<times> MerkleTree" where
  "generateNode env t leftHashBuffer rightHashBuffer layerIndex nodeIndex =
     (case writeInt8 layerIndex of
        Inl e \<Rightarrow> (Inl e, t)
      | Inr layerIndexBuffer \<Rightarrow>
          (case writeBigInt64BE nodeIndex of
             Inl e \<Rightarrow> (Inl e, t)
           | Inr nodeIndexBuffer \<Rightarrow>
               let branchValue =
                     BRANCH_PREFIX env @ layerIndexBuffer @ nodeIndexBuffer @
                     leftHashBuffer @ rightHashBuffer;
                   branchHash = hash env (BRANCH_PREFIX env @ leftHashBuffer @ rightHashBuffer)
               in (Inr \<lparr>nd_value = branchValue, nd_hash = branchHash\<rparr>,
                   t\<lparr>hashToBuffer := (hashToBuffer t)(branchHash \<mapsto> branchValue)\<rparr>)))"

definition storeNode :: "MerkleTree \<Rightarrow> NodeData \<Rightarrow> MerkleTree" where
  "storeNode t node = t\<lparr>hashToBuffer := (hashToBuffer t)(nd_hash node \<mapsto> nd_value node)\<rparr>"

subsection \<open>\_build and the constructor\<close>

text \<open>The first loop of \<^verbatim>\<open>_build\<close>: one leaf per initial value.\<close>

fun generateLeaves :: "MerkleEnv \<Rightarrow> MerkleTree \<Rightarrow> bytes list \<Rightarrow> bytes list \<times> MerkleTree" where
  "generateLeaves env t [] = ([], t)"
| "generateLeaves env t (v # initValues) =
     (let (leaf, t1) = generateLeaf env t v;
          (leafHashes, t2) = generateLeaves env (storeNode t1 leaf) initValues
      in (nd_hash leaf # leafHashes, t2))"

text \<open>The pairs \<open>(nodes[i], nodes[i + 1])\<close> for even \<open>i\<close> below \<open>length - 1\<close>.\<close>

fun makePairs :: "bytes list \<Rightarrow> (bytes \<times> bytes) list" where
  "makePairs (a # b # rest) = (a, b) # makePairs rest"
| "makePairs _ = []"

text \<open>The loop over the pairs of a layer; \<open>i\<close> is the index of the pair.\<close>

fun generateParents ::
  "MerkleEnv \<Rightarrow> MerkleTree \<Rightarrow> (bytes \<times> bytes) list \<Rightarrow> int \<Rightarrow> int \<Rightarrow>
   (error + bytes list) \<times> MerkleTree" where
  "generateParents env t [] currentLayer i = (Inr [], t)"
| "generateParents env t ((left, right) # pairs) currentLayer i =
     (case generateNode env t left right currentLayer i of
        (Inl e, t1) \<Rightarrow> (Inl e, t1)
      | (Inr node, t1) \<Rightarrow>
          (case generateParents env (storeNode t1 node) pairs currentLayer (i + 1) of
             (Inl e, t2) \<Rightarrow> (Inl e, t2)
           | (Inr parentLayerNodes, t2) \<Rightarrow> (Inr (nd_hash node # parentLayerNodes), t2)))"

lemma generateParents_length:
  "generateParents env t pairs currentLayer i = (Inr parents, t') \<Longrightarrow>
   length parents = length pairs"
proof (induction pairs arbitrary: t i parents t')
  case Nil
  then show ?case by simp
next
  case (Cons pair pairs)
  then show ?case
    by (cases pair) (auto split: prod.splits sum.splits)
qed

lemma length_makePairs: "length (makePairs nodes) = length nodes div 2"
  by (induction nodes rule: makePairs.induct) simp_all

text \<open>
  The pairs of one layer and the orphan carried to the next: an odd layer leaves its
  last node as the orphan, or pairs it with the orphan of an earlier layer.
\<close>

definition layerPairs ::
  "bytes list \<Rightarrow> bytes option \<Rightarrow> (bytes \<times> bytes) list \<times> bytes option" where
  "layerPairs currentLayerNodes orphan =
     (if length currentLayerNodes mod 2 = 1 then
        (case orphan of
           None \<Rightarrow> (makePairs currentLayerNodes, Some (last currentLayerNodes))
         | Some orphanNode \<Rightarrow>
             (makePairs currentLayerNodes @ [(last currentLayerNodes, orphanNode)], None))
      else (makePairs currentLayerNodes, orphan))"

text \<open>
  The \<^verbatim>\<open>while\<close> loop of \<^verbatim>\<open>_build\<close>. It ends with
  \<^verbatim>\<open>currentLayerNodes[0]\<close>. On an empty layer with an orphan the loop of the source
  would not end, and on an empty layer without one it would return
  \<^verbatim>\<open>undefined\<close>; neither state is reached from a non-empty list of leaves (a layer
  of one or more nodes never has an empty parent layer while the loop runs), and the
  constructor does not call \<^verbatim>\<open>_build\<close> on an empty one. The model marks them
  \<open>LoopsForever\<close> and \<open>UndefinedRoot\<close>.
\<close>

function buildLayers ::
  "MerkleEnv \<Rightarrow> MerkleTree \<Rightarrow> bytes list \<Rightarrow> bytes option \<Rightarrow> int \<Rightarrow> (error + bytes) \<times> MerkleTree" where
  "buildLayers env t currentLayerNodes orphan currentLayer =
     (if 1 < length currentLayerNodes \<or> orphan \<noteq> None then
        (if currentLayerNodes = [] then (Inl LoopsForever, t)
         else
           let r = generateParents env t (fst (layerPairs currentLayerNodes orphan)) currentLayer 0
           in (case fst r of
                 Inl e \<Rightarrow> (Inl e, snd r)
               | Inr parentLayerNodes \<Rightarrow>
                   buildLayers env (snd r) parentLayerNodes
                     (snd (layerPairs currentLayerNodes orphan)) (currentLayer + 1)))
      else
        (case currentLayerNodes of
           [] \<Rightarrow> (Inl UndefinedRoot, t)
         | first # _ \<Rightarrow> (Inr first, t)))"
  by pat_completeness auto
termination
proof (relation "measure (\<lambda>(env, t, nodes, orphan, layer).
    length nodes + (case orphan of None \<Rightarrow> 0 | Some _ \<Rightarrow> 1))", goal_cases)
  case 1
  then show ?case by simp
next
  case (2 env t nodes orphan layer r parents)
  from 2(4,3) have len: "length parents = length (fst (layerPairs nodes orphan))"
    by (metis generateParents_length prod.collapse)
  from 2(1,2) len show ?case
    by (cases orphan; simp add: layerPairs_def length_makePairs split: if_splits; presburger)
qed

declare buildLayers.simps [simp del]

definition build :: "MerkleEnv \<Rightarrow> MerkleTree \<Rightarrow> bytes list \<Rightarrow> (error + bytes) \<times> MerkleTree" where
  "build env t initValues =
     (let (leafHashes, t1) = generateLeaves env t initValues
      in buildLayers env t1 leafHashes None 0)"

text \<open>
  The constructor. The field initialisers give width 0 and an empty
  \<^verbatim>\<open>_hashToBuffer\<close>; \<^verbatim>\<open>_root\<close> has no value before the constructor assigns it
  and is not read before (the model holds \<^verbatim>\<open>EMPTY_HASH\<close> there meanwhile). The
  width is set to the number of initial values before \<^verbatim>\<open>_build\<close> runs. A
  constructor that throws leaves no tree.
\<close>

definition MerkleTree_new :: "MerkleEnv \<Rightarrow> bytes list \<Rightarrow> error + MerkleTree" where
  "MerkleTree_new env initValues =
     (let t0 = \<lparr>root = EMPTY_HASH env, width = 0, hashToBuffer = Map.empty\<rparr>;
          t1 = t0\<lparr>width := length initValues\<rparr>
      in if width t1 = 0 then Inr (t1\<lparr>root := EMPTY_HASH env\<rparr>)
         else
           (case build env t1 initValues of
              (Inl e, _) \<Rightarrow> Inl e
            | (Inr h, t2) \<Rightarrow> Inr (t2\<lparr>root := h\<rparr>)))"

subsection \<open>append\<close>

text \<open>
  The \<^verbatim>\<open>for\<close> loop of \<^verbatim>\<open>append\<close>, from index \<open>i\<close>: it collects the nodes of
  the append path, walking from the root to the right.
\<close>

function collectAppendPath ::
  "MerkleEnv \<Rightarrow> MerkleTree \<Rightarrow> int \<Rightarrow> int \<Rightarrow> NodeInfo \<Rightarrow> NodeInfo list \<Rightarrow> error + NodeInfo list" where
  "collectAppendPath env t treeHeight i currentNode appendPath =
     (if \<not> i < treeHeight then Inr appendPath
      else
        let appendPath1 =
              (if isAppendPath (int (width t) - 1) (treeHeight - i)
               then appendPath @ [currentNode] else appendPath)
        in
          if isLeaf env (ni_hash currentNode) then Inr appendPath1
          else
            (case (if isAppendPath (int (width t) - 1) (treeHeight - i - 1)
                   then (case getNode env t (ni_leftHash currentNode) of
                           Inl e \<Rightarrow> Inl e
                         | Inr leftNode \<Rightarrow> Inr (appendPath1 @ [leftNode]))
                   else Inr appendPath1) of
               Inl e \<Rightarrow> Inl e
             | Inr appendPath2 \<Rightarrow>
                 if Buffer_truthy (ni_rightHash currentNode) then Inr appendPath2
                 else if isLeaf env (ni_rightHash currentNode) \<or> ni_rightHash currentNode = []
                 then Inr appendPath2
                 else
                   (case getNode env t (ni_rightHash currentNode) of
                      Inl e \<Rightarrow> Inl e
                    | Inr rightNode \<Rightarrow>
                        collectAppendPath env t treeHeight (i + 1) rightNode appendPath2)))"
  by pat_completeness auto
termination
  by (relation "measure (\<lambda>(env, t, treeHeight, i, currentNode, appendPath). nat (treeHeight - i))")
    auto

declare collectAppendPath.simps [simp del]

text \<open>
  The \<^verbatim>\<open>while\<close> loop of \<^verbatim>\<open>append\<close>: the last two nodes of the path are
  replaced by a new branch over them until one node is left.
\<close>

function newBranches ::
  "MerkleEnv \<Rightarrow> MerkleTree \<Rightarrow> NodeInfo list \<Rightarrow> (error + NodeInfo list) \<times> MerkleTree" where
  "newBranches env t appendPath =
     (if 1 < length appendPath then
        let rightNodeInfo = last appendPath;
            leftNodeInfo = last (butlast appendPath);
            rest = butlast (butlast appendPath)
        in
          (case generateNode env t (ni_hash leftNodeInfo) (ni_hash rightNodeInfo)
                  (ni_layerIndex leftNodeInfo + 1) (ni_nodeIndex leftNodeInfo + 1) of
             (Inl e, t1) \<Rightarrow> (Inl e, t1)
           | (Inr newNode, t1) \<Rightarrow>
               (case getNode env (storeNode t1 newNode) (nd_hash newNode) of
                  Inl e \<Rightarrow> (Inl e, storeNode t1 newNode)
                | Inr info \<Rightarrow> newBranches env (storeNode t1 newNode) (rest @ [info])))
      else (Inr appendPath, t))"
  by pat_completeness auto
termination
  by (relation "measure (\<lambda>(env, t, appendPath). length appendPath)") auto

declare newBranches.simps [simp del]

text \<open>
  \<^verbatim>\<open>append\<close> returns the new root, or throws; either way the tree is left as the
  call changed it up to there.
\<close>

definition MerkleTree_append :: "MerkleEnv \<Rightarrow> MerkleTree \<Rightarrow> bytes \<Rightarrow> (error + bytes) \<times> MerkleTree" where
  "MerkleTree_append env t v =
     (let (appendData, t1) = generateLeaf env t v in
      case getNode env t1 (nd_hash appendData) of
        Inl e \<Rightarrow> (Inl e, t1)
      | Inr appendNode \<Rightarrow>
          (case getNode env t1 (root t1) of
             Inl e \<Rightarrow> (Inl e, t1)
           | Inr currentNode \<Rightarrow>
               (case collectAppendPath env t1 (getHeight t1) 0 currentNode [] of
                  Inl e \<Rightarrow> (Inl e, t1)
                | Inr appendPath \<Rightarrow>
                    (case getNode env t1 (ni_hash appendNode) of
                       Inl e \<Rightarrow> (Inl e, t1)
                     | Inr appendInfo \<Rightarrow>
                         (case newBranches env t1 (appendPath @ [appendInfo]) of
                            (Inl e, t2) \<Rightarrow> (Inl e, t2)
                          | (Inr path, t2) \<Rightarrow>
                              (case path of
                                 [] \<Rightarrow> (Inl TypeError, t2)
                               | first # _ \<Rightarrow>
                                   (Inr (ni_hash first), t2\<lparr>root := ni_hash first\<rparr>)))))))"

text \<open>The sequential construction of the claim: \<open>fold(append, L, empty_tree)\<close>.\<close>

fun appendAll :: "MerkleEnv \<Rightarrow> MerkleTree \<Rightarrow> bytes list \<Rightarrow> error + MerkleTree" where
  "appendAll env t [] = Inr t"
| "appendAll env t (v # vs) =
     (case MerkleTree_append env t v of
        (Inl e, _) \<Rightarrow> Inl e
      | (Inr _, t1) \<Rightarrow> appendAll env t1 vs)"

text \<open>\<^verbatim>\<open>clear\<close> resets the three fields.\<close>

definition clear :: "MerkleEnv \<Rightarrow> MerkleTree \<Rightarrow> MerkleTree" where
  "clear env t = t\<lparr>width := 0, hashToBuffer := Map.empty, root := EMPTY_HASH env\<rparr>"

section \<open>Notions of the claims and example states\<close>

text \<open>
  The errors \<^verbatim>\<open>setBFTParameters\<close> throws for its own arguments: the validator
  count, a weight, and the two thresholds.
\<close>

definition validationErrors :: "error set" where
  "validationErrors =
     {InvalidValidatorsSize, InvalidBFTWeight, InvalidPrecommitThreshold,
      InvalidCertificateThreshold}"



text \<open>Two headers of one generator, and a chain of two recorded blocks.\<close>

definition exHeaderA :: BlockHeader where
  "exHeaderA = \<lparr>bh_id = [1], bh_height = 10, bh_generatorAddress = [7],
     bh_maxHeightGenerated = 8, bh_maxHeightPrevoted = 3, bh_timestamp = 100,
     bh_stateRoot = Some [9], bh_validatorsHash = Some [8]\<rparr>"

definition exHeaderB :: BlockHeader where
  "exHeaderB = \<lparr>bh_id = [2], bh_height = 5, bh_generatorAddress = [7],
     bh_maxHeightGenerated = 0, bh_maxHeightPrevoted = 0, bh_timestamp = 50,
     bh_stateRoot = Some [9], bh_validatorsHash = Some [8]\<rparr>"

definition exVotes :: BFTVotes where
  "exVotes = \<lparr>bv_maxHeightPrevoted = 8, bv_maxHeightPrecommitted = 6, bv_maxHeightCertified = 4,
     bv_blockBFTInfos =
       [\<lparr>bi_height = 10, bi_generatorAddress = [7], bi_maxHeightGenerated = 8,
         bi_maxHeightPrevoted = 3\<rparr>,
        \<lparr>bi_height = 9, bi_generatorAddress = [6], bi_maxHeightGenerated = 7,
         bi_maxHeightPrevoted = 3\<rparr>],
     bv_activeValidatorsVoteInfo =
       [\<lparr>av_address = [6], av_minActiveHeight = 1, av_largestHeightPrecommit = 5\<rparr>]\<rparr>"

definition exStores :: BFTStores where
  "exStores = \<lparr>paramsStore = Map.empty, votesStore = Some exVotes\<rparr>"

definition exHeaderNext :: BlockHeader where
  "exHeaderNext = \<lparr>bh_id = [3], bh_height = 11, bh_generatorAddress = [6],
     bh_maxHeightGenerated = 9, bh_maxHeightPrevoted = 8, bh_timestamp = 110,
     bh_stateRoot = Some [9], bh_validatorsHash = Some [8]\<rparr>"

text \<open>
  A BFT API whose accounts have the address as BLS key, except that the addresses
  \<open>[6]\<close> and \<open>[7]\<close> share the key \<open>[0]\<close>; the stand-in for the hash of the
  encoded input lists the weights in the order of the input, then the threshold.
\<close>

definition exDigest :: "ValidatorsHashInput \<Rightarrow> bytes" where
  "exDigest input =
     map (\<lambda>e. word_of_int (vh_bftWeight e)) (vi_activeValidators input) @
     [word_of_int (vi_certificateThreshold input)]"

definition exApi :: BFTAPI where
  "exApi = \<lparr>batchSize = 3,
     getValidatorAccount = (\<lambda>a. if a = [6] \<or> a = [7] then Inr [0] else Inr a),
     hashValidatorsHashInput = exDigest\<rparr>"

definition exValidators :: "Validator list" where
  "exValidators = [\<lparr>va_address = [2], va_bftWeight = 4\<rparr>, \<lparr>va_address = [1], va_bftWeight = 6\<rparr>]"


text \<open>
  A commit pool at certified height 10 and precommitted height 20 whose lookup of the
  next parameters height throws an error other than
  \<^verbatim>\<open>BFTParameterNotFoundError\<close>; the stand-in for the signature scheme accepts
  when the listed weights reach the threshold.
\<close>

definition exConfig :: CommitPoolConfig where
  "exConfig = \<lparr>
     cp_getBFTHeights =
       Inr \<lparr>he_maxHeightPrevoted = 30, he_maxHeightPrecommitted = 20, he_maxHeightCertified = 10\<rparr>,
     cp_getNextHeightBFTParameters = (\<lambda>_. Inl (CollaboratorError ''database is closed'')),
     cp_getBFTParameters =
       (\<lambda>_. Inr \<lparr>bp_prevoteThreshold = 7, bp_precommitThreshold = 4, bp_certificateThreshold = 4,
                  bp_validators = exValidators, bp_validatorsHash = [8]\<rparr>),
     cp_getValidatorAccount = (\<lambda>a. Inr a),
     cp_getBlockHeaderByHeight = (\<lambda>h. Inr (exHeaderA\<lparr>bh_height := h\<rparr>)),
     cp_networkIdentifier = [5],
     cp_MESSAGE_TAG_CERTIFICATE = [4],
     cp_encodeCertificate = ce_blockID,
     cp_verifyWeightedAggSig =
       (\<lambda>keys bits signature tag networkId message weights threshold.
          threshold \<le> sum_list weights)\<rparr>"

definition exHeap :: heap where
  "exHeap = \<lparr>h_arrays = [0 \<mapsto> [\<lparr>wk_weight = 5, wk_blsKey = [3, 1]\<rparr>,
                                 \<lparr>wk_weight = 7, wk_blsKey = [2]\<rparr>,
                                 \<lparr>wk_weight = 1, wk_blsKey = [3]\<rparr>]],
             h_next = 1\<rparr>"

text \<open>
  The tree with no leaves: what the constructor returns for no initial values and what
  \<^verbatim>\<open>clear\<close> leaves.
\<close>

definition emptyTree :: "MerkleEnv \<Rightarrow> MerkleTree" where
  "emptyTree env = \<lparr>root = EMPTY_HASH env, width = 0, hashToBuffer = Map.empty\<rparr>"

text \<open>
  An environment for running the tree: one-byte prefixes 0 and 1, and a stand-in hash of
  32 bytes (a marker byte, a 64-bit polynomial checksum of the input, padding) that
  tells the inputs of the examples apart.
\<close>

definition exHash :: "bytes \<Rightarrow> bytes" where
  "exHash bs =
     170 #
     map (\<lambda>i. word_of_int
                 (foldl (\<lambda>acc b. (acc * 257 + uint b + 1) mod 2 ^ 64) 7 bs div 2 ^ (8 * i)))
       [7, 6, 5, 4, 3, 2, 1, 0] @
     replicate 23 170"

definition exEnv :: MerkleEnv where
  "exEnv = \<lparr>hash = exHash, EMPTY_HASH = exHash [], LEAF_PREFIX = [0], BRANCH_PREFIX = [1]\<rparr>"

section \<open>Properties of the BFT API\<close>

subsection \<open>areHeadersContradicting\<close>

text \<open>
  C4: the contradiction predicate is symmetric, \<open>contradicts(A,B) = contradicts(B,A)\<close>,
  for every pair of headers; it is irreflexive, \<open>contradicts(A,A) = false\<close>; and two
  headers with identical block ids never contradict. The last two hold of the id guard of
  \<^verbatim>\<open>areHeadersContradicting\<close> whatever the rule for distinct headers is; the
  symmetry is that of the rule for distinct headers.
\<close>

theorem areHeadersContradicting_symmetric_irreflexive:
  "areHeadersContradicting a b = areHeadersContradicting b a \<and>
   \<not> areHeadersContradicting a a \<and>
   (bh_id a = bh_id b \<longrightarrow> \<not> areHeadersContradicting a b)"
proof -
  have sym: "areDistinctHeadersContradicting a b = areDistinctHeadersContradicting b a"
    unfolding areDistinctHeadersContradicting_def by auto
  have "areHeadersContradicting a b = areHeadersContradicting b a"
    unfolding areHeadersContradicting_def using sym by auto
  moreover have "\<not> areHeadersContradicting a a"
    by (simp add: areHeadersContradicting_def)
  moreover have "bh_id a = bh_id b \<longrightarrow> \<not> areHeadersContradicting a b"
    by (simp add: areHeadersContradicting_def)
  ultimately show ?thesis by blast
qed

text \<open>
  At the example headers: with the id of the first, the second does not contradict it;
  with their own ids the two contradict, in both orders.
\<close>

theorem areHeadersContradicting_witness:
  "bh_id exHeaderA = bh_id (exHeaderB\<lparr>bh_id := [1]\<rparr>) \<and>
   \<not> areHeadersContradicting exHeaderA (exHeaderB\<lparr>bh_id := [1]\<rparr>) \<and>
   areHeadersContradicting exHeaderA exHeaderB \<and>
   areHeadersContradicting exHeaderB exHeaderA"
proof -
  have ids: "bh_id exHeaderA = bh_id (exHeaderB\<lparr>bh_id := [1]\<rparr>)"
    by (simp add: exHeaderA_def)
  have ab: "areHeadersContradicting exHeaderA exHeaderB"
    by (simp add: areHeadersContradicting_def areDistinctHeadersContradicting_def
        couldNotHaveFollowed_def exHeaderA_def exHeaderB_def)
  from areHeadersContradicting_symmetric_irreflexive
    [of exHeaderA "exHeaderB\<lparr>bh_id := [1]\<rparr>"] ids
  have "\<not> areHeadersContradicting exHeaderA (exHeaderB\<lparr>bh_id := [1]\<rparr>)" by blast
  moreover from areHeadersContradicting_symmetric_irreflexive [of exHeaderA exHeaderB] ab
  have "areHeadersContradicting exHeaderB exHeaderA" by blast
  ultimately show ?thesis using ids ab by blast
qed

subsection \<open>impliesMaximalPrevotes\<close>

text \<open>
  C9: on a state whose list of block infos is not empty, \<^verbatim>\<open>impliesMaximalPrevotes\<close>
  returns a boolean: the indexed read is in bounds, so the error branch of the indexing
  is not taken. On a state whose list is empty the call fails (with the
  \<^verbatim>\<open>TypeError\<close> of reading \<^verbatim>\<open>height\<close> of \<^verbatim>\<open>undefined\<close>) instead of
  returning a boolean.
\<close>

theorem impliesMaximalPrevotes_nonempty_returns:
  assumes "votesStore s = Some bftVotes"
  shows "(bv_blockBFTInfos bftVotes \<noteq> [] \<longrightarrow>
           impliesMaximalPrevotes s header = Inr True \<or>
           impliesMaximalPrevotes s header = Inr False) \<and>
         (bv_blockBFTInfos bftVotes = [] \<longrightarrow> impliesMaximalPrevotes s header = Inl TypeError)"
  using assms
  by (auto simp: impliesMaximalPrevotes_def Let_def js_index_def split: list.splits)

text \<open>
  At the example chain the header of height 11 reaches the indexed read (offset 1 in a
  list of two) and gets \<open>true\<close>; with the list emptied the call fails.
\<close>

theorem impliesMaximalPrevotes_witness:
  "votesStore exStores = Some exVotes \<and> bv_blockBFTInfos exVotes \<noteq> [] \<and>
   impliesMaximalPrevotes exStores exHeaderNext = Inr True \<and>
   impliesMaximalPrevotes
     (exStores\<lparr>votesStore := Some (exVotes\<lparr>bv_blockBFTInfos := []\<rparr>)\<rparr>) exHeaderNext =
     Inl TypeError"
proof -
  have store: "votesStore exStores = Some exVotes"
    by (simp add: exStores_def)
  have nonempty: "bv_blockBFTInfos exVotes \<noteq> []"
    by (simp add: exVotes_def)
  have not_false: "impliesMaximalPrevotes exStores exHeaderNext \<noteq> Inr False"
    by (simp add: impliesMaximalPrevotes_def exStores_def exVotes_def exHeaderNext_def
        js_index_def)
  have emptied: "votesStore (exStores\<lparr>votesStore := Some (exVotes\<lparr>bv_blockBFTInfos := []\<rparr>)\<rparr>) =
      Some (exVotes\<lparr>bv_blockBFTInfos := []\<rparr>)"
    by simp
  from impliesMaximalPrevotes_nonempty_returns [OF store, of exHeaderNext] nonempty not_false
  have "impliesMaximalPrevotes exStores exHeaderNext = Inr True" by blast
  moreover from impliesMaximalPrevotes_nonempty_returns [OF emptied, of exHeaderNext]
  have "impliesMaximalPrevotes
     (exStores\<lparr>votesStore := Some (exVotes\<lparr>bv_blockBFTInfos := []\<rparr>)\<rparr>) exHeaderNext =
     Inl TypeError" by simp
  ultimately show ?thesis using store nonempty by blast
qed

subsection \<open>setBFTParameters: thresholds and atomicity\<close>

lemma aggregateWeights_eq:
  "aggregateWeights vs acc =
     (if list_all (\<lambda>v. 0 < va_bftWeight v) vs then Inr (acc + sum_list (map va_bftWeight vs))
      else Inl InvalidBFTWeight)"
  by (induction vs arbitrary: acc) auto

lemma bigint_div_nonneg: "0 \<le> a \<Longrightarrow> bigint_div a 3 = a div 3"
  by (cases "a = 0") (simp_all add: bigint_div_def)

lemma sum_list_weights_nonneg:
  "list_all (\<lambda>v. 0 < va_bftWeight v) vs \<Longrightarrow> 0 \<le> sum_list (map va_bftWeight vs)"
  by (induction vs) auto

lemma resolveActiveValidators_error:
  "resolveActiveValidators api vs = Inl e \<Longrightarrow> \<exists>m. e = CollaboratorError m"
  by (induction vs arbitrary: e) (auto split: sum.splits)

lemma computeValidatorsHash_error:
  "computeValidatorsHash api vs c = Inl e \<Longrightarrow> \<exists>m. e = CollaboratorError m"
  by (auto simp: computeValidatorsHash_def validatorsHashInput_def
      dest: resolveActiveValidators_error split: sum.splits)

lemma setBFTParameters_cases:
  "fst (setBFTParameters api s p c vs) =
     (if batchSize api < int (length vs) then Inl InvalidValidatorsSize
      else if \<not> list_all (\<lambda>v. 0 < va_bftWeight v) vs then Inl InvalidBFTWeight
      else if p \<le> sum_list (map va_bftWeight vs) div 3 \<or> sum_list (map va_bftWeight vs) < p
        then Inl InvalidPrecommitThreshold
      else if c \<le> sum_list (map va_bftWeight vs) div 3 \<or> sum_list (map va_bftWeight vs) < c
        then Inl InvalidCertificateThreshold
      else (case computeValidatorsHash api vs c of
              Inl e \<Rightarrow> Inl e
            | Inr _ \<Rightarrow> (case votesStore s of None \<Rightarrow> Inl NotFoundError | Some _ \<Rightarrow> Inr ())))"
  by (auto simp: setBFTParameters_def aggregateWeights_eq bigint_div_nonneg
      sum_list_weights_nonneg Let_def split: sum.splits option.splits)

text \<open>
  C3: with \<open>W\<close> the sum of the validators' weights, \<^verbatim>\<open>setBFTParameters\<close>
  throws one of its validation errors whenever the precommit or the certificate threshold
  is \<open>\<le> \<lfloor>W/3\<rfloor>\<close> or \<open>> W\<close>, and does not throw either threshold
  error when both lie in \<open>[\<lfloor>W/3\<rfloor> + 1, W]\<close>. When the validator count and
  the weights are valid, the precommit error is thrown exactly for a precommit threshold
  outside the interval, the certificate error exactly for a precommit threshold inside
  and a certificate threshold outside, and no validation error at all when both are
  inside. So \<open>\<lfloor>W/3\<rfloor>\<close> and every value
  above \<open>W\<close> are rejected, and \<open>\<lfloor>W/3\<rfloor> + 1\<close> is accepted wherever it is
  at most \<open>W\<close> (that is, from \<open>W = 1\<close> on; an empty validator list has
  \<open>W = 0\<close>, an empty interval, and every threshold above \<open>W\<close>).
\<close>

theorem setBFTParameters_threshold_bounds:
  assumes W: "W = sum_list (map va_bftWeight vs)"
    and r: "r = fst (setBFTParameters api s p c vs)"
  shows "(p \<le> W div 3 \<or> W < p \<or> c \<le> W div 3 \<or> W < c \<longrightarrow> r \<in> Inl ` validationErrors) \<and>
         (W div 3 + 1 \<le> p \<and> p \<le> W \<and> W div 3 + 1 \<le> c \<and> c \<le> W \<longrightarrow>
            r \<noteq> Inl InvalidPrecommitThreshold \<and> r \<noteq> Inl InvalidCertificateThreshold) \<and>
         (int (length vs) \<le> batchSize api \<and> list_all (\<lambda>v. 0 < va_bftWeight v) vs \<longrightarrow>
            (r = Inl InvalidPrecommitThreshold \<longleftrightarrow> p \<le> W div 3 \<or> W < p) \<and>
            (r = Inl InvalidCertificateThreshold \<longleftrightarrow>
               \<not> (p \<le> W div 3 \<or> W < p) \<and> (c \<le> W div 3 \<or> W < c))) \<and>
         (int (length vs) \<le> batchSize api \<and> list_all (\<lambda>v. 0 < va_bftWeight v) vs \<and>
          W div 3 + 1 \<le> p \<and> p \<le> W \<and> W div 3 + 1 \<le> c \<and> c \<le> W \<longrightarrow>
            r \<notin> Inl ` validationErrors)"
proof -
  have rejected: "r \<in> Inl ` validationErrors"
    if "p \<le> W div 3 \<or> W < p \<or> c \<le> W div 3 \<or> W < c"
    using that unfolding r W setBFTParameters_cases validationErrors_def by auto
  have not_threshold:
    "r \<noteq> Inl InvalidPrecommitThreshold \<and> r \<noteq> Inl InvalidCertificateThreshold"
    if "W div 3 + 1 \<le> p \<and> p \<le> W \<and> W div 3 + 1 \<le> c \<and> c \<le> W"
    using that unfolding r W setBFTParameters_cases
    by (auto split: sum.splits option.splits dest: computeValidatorsHash_error)
  have exact:
    "(r = Inl InvalidPrecommitThreshold \<longleftrightarrow> p \<le> W div 3 \<or> W < p) \<and>
     (r = Inl InvalidCertificateThreshold \<longleftrightarrow>
        \<not> (p \<le> W div 3 \<or> W < p) \<and> (c \<le> W div 3 \<or> W < c))"
    if "int (length vs) \<le> batchSize api \<and> list_all (\<lambda>v. 0 < va_bftWeight v) vs"
    using that unfolding r W setBFTParameters_cases
    by (auto split: sum.splits option.splits dest: computeValidatorsHash_error)
  have accepted: "r \<notin> Inl ` validationErrors"
    if "int (length vs) \<le> batchSize api \<and> list_all (\<lambda>v. 0 < va_bftWeight v) vs \<and>
        W div 3 + 1 \<le> p \<and> p \<le> W \<and> W div 3 + 1 \<le> c \<and> c \<le> W"
    using that unfolding r W setBFTParameters_cases validationErrors_def
    by (auto split: sum.splits option.splits dest: computeValidatorsHash_error)
  from rejected not_threshold exact accepted show ?thesis by blast
qed

lemma exValidators_weight: "sum_list (map va_bftWeight exValidators) = 10"
  by (simp add: exValidators_def)

lemma exValidators_valid:
  "int (length exValidators) \<le> batchSize exApi \<and> list_all (\<lambda>v. 0 < va_bftWeight v) exValidators"
  by (simp add: exValidators_def exApi_def)

lemma setBFTParameters_example_accepted:
  "fst (setBFTParameters exApi exStores 4 4 exValidators) = Inr ()"
  by (simp add: setBFTParameters_cases exValidators_def exApi_def exStores_def
      computeValidatorsHash_def validatorsHashInput_def)

text \<open>
  At the example validators \<open>W = 10\<close> and \<open>\<lfloor>W/3\<rfloor> = 3\<close>: thresholds 3 and
  11 are rejected, 4 and 10 are accepted.
\<close>

theorem setBFTParameters_threshold_bounds_witness:
  "sum_list (map va_bftWeight exValidators) = 10 \<and>
   fst (setBFTParameters exApi exStores 4 4 exValidators) \<notin> Inl ` validationErrors \<and>
   fst (setBFTParameters exApi exStores 3 4 exValidators) = Inl InvalidPrecommitThreshold \<and>
   fst (setBFTParameters exApi exStores 4 4 exValidators) = Inr () \<and>
   fst (setBFTParameters exApi exStores 10 10 exValidators) = Inr () \<and>
   fst (setBFTParameters exApi exStores 11 4 exValidators) = Inl InvalidPrecommitThreshold \<and>
   fst (setBFTParameters exApi exStores 4 3 exValidators) = Inl InvalidCertificateThreshold \<and>
   fst (setBFTParameters exApi exStores 4 11 exValidators) = Inl InvalidCertificateThreshold"
proof -
  note W = exValidators_weight [symmetric]
  note bounds = setBFTParameters_threshold_bounds [OF W refl, where api = exApi and s = exStores]
  have "fst (setBFTParameters exApi exStores 4 4 exValidators) \<notin> Inl ` validationErrors"
    using bounds [where p = 4 and c = 4] exValidators_valid by simp
  moreover
  have "fst (setBFTParameters exApi exStores 3 4 exValidators) = Inl InvalidPrecommitThreshold"
    using bounds [where p = 3 and c = 4] exValidators_valid by simp
  moreover have "fst (setBFTParameters exApi exStores 11 4 exValidators) = Inl InvalidPrecommitThreshold"
    using bounds [where p = 11 and c = 4] exValidators_valid by simp
  moreover have "fst (setBFTParameters exApi exStores 4 3 exValidators) = Inl InvalidCertificateThreshold"
    using bounds [where p = 4 and c = 3] exValidators_valid by simp
  moreover have "fst (setBFTParameters exApi exStores 4 11 exValidators) = Inl InvalidCertificateThreshold"
    using bounds [where p = 4 and c = 11] exValidators_valid by simp
  moreover have "fst (setBFTParameters exApi exStores 4 4 exValidators) = Inr ()"
    by (simp add: setBFTParameters_cases exValidators_def exApi_def exStores_def
      computeValidatorsHash_def validatorsHashInput_def)
  moreover have "fst (setBFTParameters exApi exStores 10 10 exValidators) = Inr ()"
    by (simp add: setBFTParameters_cases exValidators_def exApi_def exStores_def
      computeValidatorsHash_def validatorsHashInput_def)
  ultimately show ?thesis using exValidators_weight by blast
qed

lemma setBFTParameters_failure_keeps_stores:
  "fst (setBFTParameters api s p c vs) = Inl e \<Longrightarrow> snd (setBFTParameters api s p c vs) = s"
  by (auto simp: setBFTParameters_def Let_def split: sum.splits option.splits if_splits)

text \<open>
  C6: whenever \<^verbatim>\<open>setBFTParameters\<close> throws one of its validation errors (validator
  count, non-positive weight, precommit or certificate threshold out of bounds), the
  parameters store and the votes store are as they were before the call: every check
  precedes the first write.
\<close>

theorem setBFTParameters_atomic_on_validation_failure:
  assumes "fst (setBFTParameters api s p c vs) = Inl e" and "e \<in> validationErrors"
  shows "paramsStore (snd (setBFTParameters api s p c vs)) = paramsStore s \<and>
         votesStore (snd (setBFTParameters api s p c vs)) = votesStore s"
  using assms(1) by (simp add: setBFTParameters_failure_keeps_stores)

lemma setBFTParameters_example_writes:
  "paramsStore (snd (setBFTParameters exApi exStores 4 4 exValidators)) 11 =
     Some \<lparr>bp_prevoteThreshold = 7, bp_precommitThreshold = 4, bp_certificateThreshold = 4,
           bp_validators = [\<lparr>va_address = [1], va_bftWeight = 6\<rparr>, \<lparr>va_address = [2], va_bftWeight = 4\<rparr>],
           bp_validatorsHash = [6, 4, 4]\<rparr>"
  by (simp add: setBFTParameters_def exValidators_def exApi_def exStores_def exVotes_def
      computeValidatorsHash_def validatorsHashInput_def bigint_div_def Let_def nextHeightOf_def
      sortValidatorsByBLSKey_def sortValidatorsByAddress_def exDigest_def)

lemma setBFTParameters_example_votes:
  "map_option bv_activeValidatorsVoteInfo (votesStore (snd (setBFTParameters exApi exStores 4 4 exValidators))) =
     Some [\<lparr>av_address = [1], av_minActiveHeight = 11, av_largestHeightPrecommit = 10\<rparr>,
           \<lparr>av_address = [2], av_minActiveHeight = 11, av_largestHeightPrecommit = 10\<rparr>]"
  by (simp add: setBFTParameters_def exValidators_def exApi_def exStores_def exVotes_def
      computeValidatorsHash_def validatorsHashInput_def bigint_div_def Let_def nextHeightOf_def
      sortValidatorsByBLSKey_def sortValidatorsByAddress_def exDigest_def
      sortVoteInfosByAddress_def nextActiveValidator_def)

text \<open>
  At the example stores a call with precommit threshold 3 fails and leaves both stores
  as they were, while the call with threshold 4 does write the parameters store.
\<close>

theorem setBFTParameters_atomic_witness:
  "fst (setBFTParameters exApi exStores 3 4 exValidators) = Inl InvalidPrecommitThreshold \<and>
   InvalidPrecommitThreshold \<in> validationErrors \<and>
   paramsStore (snd (setBFTParameters exApi exStores 3 4 exValidators)) = paramsStore exStores \<and>
   votesStore (snd (setBFTParameters exApi exStores 3 4 exValidators)) = votesStore exStores \<and>
   paramsStore (snd (setBFTParameters exApi exStores 4 4 exValidators)) \<noteq> paramsStore exStores"
proof -
  have failed: "fst (setBFTParameters exApi exStores 3 4 exValidators) = Inl InvalidPrecommitThreshold"
    by (simp add: setBFTParameters_cases exValidators_def exApi_def)
  have member: "InvalidPrecommitThreshold \<in> validationErrors"
    by (simp add: validationErrors_def)
  have "paramsStore (snd (setBFTParameters exApi exStores 4 4 exValidators)) 11 \<noteq> paramsStore exStores 11"
    by (simp add: setBFTParameters_example_writes) (simp add: exStores_def)
  then have written: "paramsStore (snd (setBFTParameters exApi exStores 4 4 exValidators)) \<noteq> paramsStore exStores"
    by metis
  from setBFTParameters_atomic_on_validation_failure [OF failed member] failed member written
  show ?thesis by blast
qed

section \<open>Properties of the commit pool\<close>

subsection \<open>verifyAggregateCommit\<close>

text \<open>
  C2: \<^verbatim>\<open>verifyAggregateCommit\<close> evaluates its gates in order and stops at the
  first that decides. It returns \<open>true\<close> for an aggregate commit whose aggregation bits
  and certificate signature are both empty and whose height equals
  \<open>maxHeightCertified\<close>; otherwise \<open>false\<close> when the bits or the signature are
  empty; \<open>false\<close> when the height is \<open>\<le> maxHeightCertified\<close>; \<open>false\<close> when the
  height is \<open>> maxHeightPrecommitted\<close>. Only when all these gates pass does the result
  depend on anything else: the lookup of the next parameters height and, after it, the
  recomputed certificate and the aggregate signature. The theorem holds for every
  configuration, so in the first four cases the result is the same whatever the chain,
  the parameters and the signature scheme answer.
\<close>

theorem verifyAggregateCommit_gates:
  assumes heights: "cp_getBFTHeights cfg = Inr heights"
    and v: "v = verifyAggregateCommit cfg aggregateCommit"
    and bits: "bits = ac_aggregationBits aggregateCommit"
    and sig: "sig = ac_certificateSignature aggregateCommit"
    and h: "h = ac_height aggregateCommit"
    and certified: "certified = he_maxHeightCertified heights"
    and precommitted: "precommitted = he_maxHeightPrecommitted heights"
  shows "(bits = [] \<and> sig = [] \<and> h = certified \<longrightarrow> v = Inr True) \<and>
         (\<not> (bits = [] \<and> sig = [] \<and> h = certified) \<and> (bits = [] \<or> sig = []) \<longrightarrow> v = Inr False) \<and>
         (bits \<noteq> [] \<and> sig \<noteq> [] \<and> h \<le> certified \<longrightarrow> v = Inr False) \<and>
         (bits \<noteq> [] \<and> sig \<noteq> [] \<and> certified < h \<and> precommitted < h \<longrightarrow> v = Inr False) \<and>
         (bits \<noteq> [] \<and> sig \<noteq> [] \<and> certified < h \<and> h \<le> precommitted \<longrightarrow>
            v = (case cp_getNextHeightBFTParameters cfg (certified + 1) of
                   Inr heightNextBFTParameters \<Rightarrow>
                     if heightNextBFTParameters - 1 < h then Inr False
                     else verifyCommitCertificate cfg aggregateCommit
                 | Inl _ \<Rightarrow> verifyCommitCertificate cfg aggregateCommit))"
  unfolding v bits sig h certified precommitted verifyAggregateCommit_def
  by (simp add: heights)

lemma exConfig_heights:
  "cp_getBFTHeights exConfig =
     Inr \<lparr>he_maxHeightPrevoted = 30, he_maxHeightPrecommitted = 20, he_maxHeightCertified = 10\<rparr>"
  by (simp add: exConfig_def)

lemma verifyCommitCertificate_example:
  "verifyCommitCertificate exConfig
     \<lparr>ac_height = 15, ac_aggregationBits = [1], ac_certificateSignature = [1]\<rparr> = Inr True"
  by (simp add: verifyCommitCertificate_def exConfig_def exHeaderA_def exValidators_def
      computeCertificateFromBlockHeader_def sortedWeightsAndValidatorKeys_def
      getSortedWeightsAndValidatorKeys_def heap_alloc_def Array_sort_byBlsKey_def
      verifyAggregateCertificateSignature_def)

text \<open>
  The spec's example at \<open>maxHeightCertified = 10\<close>: height 10 with empty bits and
  signature is accepted; height 10 with bits and no signature is rejected; height 5 is
  rejected with or without bits and signature; height 21 is above the precommitted
  height 20 and rejected. Height 15 passes the gates: it is verified when the lookup of
  the next parameters height throws, and rejected when the lookup returns 13 (the
  parameters expire at height 12).
\<close>

theorem verifyAggregateCommit_gates_witness:
  "verifyAggregateCommit exConfig
     \<lparr>ac_height = 10, ac_aggregationBits = [], ac_certificateSignature = []\<rparr> = Inr True \<and>
   verifyAggregateCommit exConfig
     \<lparr>ac_height = 10, ac_aggregationBits = [1], ac_certificateSignature = []\<rparr> = Inr False \<and>
   verifyAggregateCommit exConfig
     \<lparr>ac_height = 5, ac_aggregationBits = [1], ac_certificateSignature = [1]\<rparr> = Inr False \<and>
   verifyAggregateCommit exConfig
     \<lparr>ac_height = 5, ac_aggregationBits = [], ac_certificateSignature = []\<rparr> = Inr False \<and>
   verifyAggregateCommit exConfig
     \<lparr>ac_height = 21, ac_aggregationBits = [1], ac_certificateSignature = [1]\<rparr> = Inr False \<and>
   verifyAggregateCommit exConfig
     \<lparr>ac_height = 15, ac_aggregationBits = [1], ac_certificateSignature = [1]\<rparr> = Inr True \<and>
   verifyAggregateCommit (exConfig\<lparr>cp_getNextHeightBFTParameters := \<lambda>_. Inr 13\<rparr>)
     \<lparr>ac_height = 15, ac_aggregationBits = [1], ac_certificateSignature = [1]\<rparr> = Inr False"
proof -
  note gates = verifyAggregateCommit_gates [OF exConfig_heights refl refl refl refl refl refl]
  have heights13: "cp_getBFTHeights (exConfig\<lparr>cp_getNextHeightBFTParameters := \<lambda>_. Inr 13\<rparr>) =
     Inr \<lparr>he_maxHeightPrevoted = 30, he_maxHeightPrecommitted = 20, he_maxHeightCertified = 10\<rparr>"
    by (simp add: exConfig_def)
  note gates13 = verifyAggregateCommit_gates [OF heights13 refl refl refl refl refl refl]
  have next_throws: "cp_getNextHeightBFTParameters exConfig 11 =
      Inl (CollaboratorError ''database is closed'')"
    by (simp add: exConfig_def)
  show ?thesis
    using gates [of "\<lparr>ac_height = 10, ac_aggregationBits = [], ac_certificateSignature = []\<rparr>"]
      gates [of "\<lparr>ac_height = 10, ac_aggregationBits = [1], ac_certificateSignature = []\<rparr>"]
      gates [of "\<lparr>ac_height = 5, ac_aggregationBits = [1], ac_certificateSignature = [1]\<rparr>"]
      gates [of "\<lparr>ac_height = 5, ac_aggregationBits = [], ac_certificateSignature = []\<rparr>"]
      gates [of "\<lparr>ac_height = 21, ac_aggregationBits = [1], ac_certificateSignature = [1]\<rparr>"]
      gates [of "\<lparr>ac_height = 15, ac_aggregationBits = [1], ac_certificateSignature = [1]\<rparr>"]
      gates13 [of "\<lparr>ac_height = 15, ac_aggregationBits = [1], ac_certificateSignature = [1]\<rparr>"]
    by (simp add: next_throws verifyCommitCertificate_example)
qed

lemma verifyCommitCertificate_ignores_next_height:
  "verifyCommitCertificate (cfg\<lparr>cp_getNextHeightBFTParameters := f\<rparr>) aggregateCommit =
   verifyCommitCertificate cfg aggregateCommit"
proof -
  have keys: "resolveKeysWithWeights (cfg\<lparr>cp_getNextHeightBFTParameters := f\<rparr>) vs =
      resolveKeysWithWeights cfg vs" for vs
    by (induction vs) (auto split: sum.splits)
  have sig: "verifyAggregateCertificateSignature (cfg\<lparr>cp_getNextHeightBFTParameters := f\<rparr>) =
      verifyAggregateCertificateSignature cfg"
    by (intro ext) (simp add: verifyAggregateCertificateSignature_def split: option.splits)
  show ?thesis
    by (simp add: verifyCommitCertificate_def keys sig split: sum.splits)
qed

text \<open>
  C8: in its parameter-expiry gate \<^verbatim>\<open>verifyAggregateCommit\<close> drops every error
  the lookup of the next parameters height throws, whatever the error is: when the
  earlier gates pass and the lookup throws \<open>e\<close>, the call goes on to the certificate and
  the signature, and its result is the one it has when the lookup throws
  \<^verbatim>\<open>BFTParameterNotFoundError\<close> (no later parameters, no expiry constraint).
\<close>

theorem verifyAggregateCommit_swallows_lookup_errors:
  assumes heights: "cp_getBFTHeights cfg = Inr heights"
    and bits: "ac_aggregationBits aggregateCommit \<noteq> []"
    and sig: "ac_certificateSignature aggregateCommit \<noteq> []"
    and above: "he_maxHeightCertified heights < ac_height aggregateCommit"
    and below: "ac_height aggregateCommit \<le> he_maxHeightPrecommitted heights"
    and thrown: "cp_getNextHeightBFTParameters cfg (he_maxHeightCertified heights + 1) = Inl e"
  shows "verifyAggregateCommit cfg aggregateCommit = verifyCommitCertificate cfg aggregateCommit \<and>
         verifyAggregateCommit cfg aggregateCommit =
           verifyAggregateCommit
             (cfg\<lparr>cp_getNextHeightBFTParameters := \<lambda>_. Inl BFTParameterNotFoundError\<rparr>)
             aggregateCommit"
  using assms
  by (simp add: verifyAggregateCommit_def verifyCommitCertificate_ignores_next_height)

text \<open>
  The example pool's lookup throws an error that is not
  \<^verbatim>\<open>BFTParameterNotFoundError\<close>; the commit at height 15 is verified all the same.
\<close>

theorem verifyAggregateCommit_swallows_witness:
  "cp_getNextHeightBFTParameters exConfig 11 = Inl (CollaboratorError ''database is closed'') \<and>
   verifyAggregateCommit exConfig
     \<lparr>ac_height = 15, ac_aggregationBits = [1], ac_certificateSignature = [1]\<rparr> = Inr True"
proof -
  have thrown: "cp_getNextHeightBFTParameters exConfig
      (he_maxHeightCertified \<lparr>he_maxHeightPrevoted = 30, he_maxHeightPrecommitted = 20,
         he_maxHeightCertified = 10\<rparr> + 1) = Inl (CollaboratorError ''database is closed'')"
    by (simp add: exConfig_def)
  from verifyAggregateCommit_swallows_lookup_errors [OF exConfig_heights _ _ _ _ thrown,
      of "\<lparr>ac_height = 15, ac_aggregationBits = [1], ac_certificateSignature = [1]\<rparr>"]
  have "verifyAggregateCommit exConfig
      \<lparr>ac_height = 15, ac_aggregationBits = [1], ac_certificateSignature = [1]\<rparr> =
    verifyCommitCertificate exConfig
      \<lparr>ac_height = 15, ac_aggregationBits = [1], ac_certificateSignature = [1]\<rparr>"
    by simp
  with verifyCommitCertificate_example thrown show ?thesis by simp
qed

subsection \<open>getSortedWeightsAndValidatorKeys\<close>

text \<open>
  C10: \<^verbatim>\<open>getSortedWeightsAndValidatorKeys\<close> does not change its argument: after the
  call the caller's array (and every other array that existed before) has its elements
  in their original order. The two returned arrays have the same length, the keys are
  in ascending byte order, and the pairs \<open>(weights[i], validatorKeys[i])\<close> are the
  pairs \<open>(weight, blsKey)\<close> of the argument's elements.
\<close>

theorem getSortedWeightsAndValidatorKeys_frame_sorted:
  assumes arr: "h_arrays h param = Some xs" and live: "param < h_next h"
  shows "\<exists>weights validatorKeys.
           fst (getSortedWeightsAndValidatorKeys h param) = Inr (weights, validatorKeys) \<and>
           sorted validatorKeys \<and>
           length weights = length validatorKeys \<and>
           mset (zip weights validatorKeys) = mset (map (\<lambda>e. (wk_weight e, wk_blsKey e)) xs) \<and>
           h_arrays (snd (getSortedWeightsAndValidatorKeys h param)) param = Some xs \<and>
           (\<forall>r. r < h_next h \<longrightarrow>
              h_arrays (snd (getSortedWeightsAndValidatorKeys h param)) r = h_arrays h r)"
proof -
  let ?s = "sort_key wk_blsKey xs"
  let ?h' = "h\<lparr>h_arrays := (h_arrays h)(h_next h \<mapsto> ?s), h_next := Suc (h_next h)\<rparr>"
  have run: "getSortedWeightsAndValidatorKeys h param =
      (Inr (map wk_weight ?s, map wk_blsKey ?s), ?h')"
    by (simp add: getSortedWeightsAndValidatorKeys_def heap_alloc_def Array_sort_byBlsKey_def arr)
  have "zip (map wk_weight ?s) (map wk_blsKey ?s) = map (\<lambda>e. (wk_weight e, wk_blsKey e)) ?s"
    by (simp add: zip_map_map zip_same_conv_map)
  then have pairs: "mset (zip (map wk_weight ?s) (map wk_blsKey ?s)) =
      mset (map (\<lambda>e. (wk_weight e, wk_blsKey e)) xs)"
    by simp
  have frame: "h_arrays ?h' r = h_arrays h r" if "r < h_next h" for r
    using that by simp
  show ?thesis
    unfolding run using pairs frame arr live
    by (intro exI [of _ "map wk_weight ?s"] exI [of _ "map wk_blsKey ?s"]) simp
qed

text \<open>
  At the example heap the keys \<open>[3,1], [2], [3]\<close> come back as \<open>[2], [3], [3,1]\<close>
  with their weights, and the argument still reads \<open>[3,1], [2], [3]\<close>.
\<close>

theorem getSortedWeightsAndValidatorKeys_witness:
  "0 < h_next exHeap \<and>
   fst (getSortedWeightsAndValidatorKeys exHeap 0) = Inr ([7, 1, 5], [[2], [3], [3, 1]]) \<and>
   h_arrays (snd (getSortedWeightsAndValidatorKeys exHeap 0)) 0 =
     Some [\<lparr>wk_weight = 5, wk_blsKey = [3, 1]\<rparr>, \<lparr>wk_weight = 7, wk_blsKey = [2]\<rparr>,
           \<lparr>wk_weight = 1, wk_blsKey = [3]\<rparr>]"
proof -
  have arr: "h_arrays exHeap 0 =
      Some [\<lparr>wk_weight = 5, wk_blsKey = [3, 1]\<rparr>, \<lparr>wk_weight = 7, wk_blsKey = [2]\<rparr>,
            \<lparr>wk_weight = 1, wk_blsKey = [3]\<rparr>]"
    by (simp add: exHeap_def)
  have live: "0 < h_next exHeap"
    by (simp add: exHeap_def)
  have result: "fst (getSortedWeightsAndValidatorKeys exHeap 0) = Inr ([7, 1, 5], [[2], [3], [3, 1]])"
    by (simp add: getSortedWeightsAndValidatorKeys_def heap_alloc_def Array_sort_byBlsKey_def
        exHeap_def)
  from getSortedWeightsAndValidatorKeys_frame_sorted [OF arr live] result live
  show ?thesis by auto
qed

section \<open>Properties of the BFT API: the validators hash\<close>

subsection \<open>setBFTParameters under a permutation of the validators\<close>







lemma mset_sortValidatorsByBLSKey: "mset (sortValidatorsByBLSKey xs) = mset xs"
  by (simp add: sortValidatorsByBLSKey_def)

lemma sorted_sortValidatorsByBLSKey: "sorted (map vh_blsKey (sortValidatorsByBLSKey xs))"
proof -
  let ?f = "\<lambda>e :: ValidatorsHashInfo. (vh_blsKey e, vh_bftWeight e)"
  have "sorted (map ?f (sort_key ?f xs))"
    by (rule sorted_sort_key)
  then have "sorted_wrt (\<lambda>x y. ?f x \<le> ?f y) (sort_key ?f xs)"
    by (simp add: sorted_map)
  then have "sorted_wrt (\<lambda>x y. vh_blsKey x \<le> vh_blsKey y) (sort_key ?f xs)"
    by (rule sorted_wrt_mono_rel [rotated]) (auto simp: less_eq_prod_def)
  then show ?thesis
    by (simp add: sortValidatorsByBLSKey_def sorted_map)
qed

text \<open>
  Where the keys are pairwise distinct, the order is the one a sort that compares the
  keys only gives.
\<close>

lemma sortValidatorsByBLSKey_distinct_keys:
  assumes "distinct (map vh_blsKey xs)"
  shows "sortValidatorsByBLSKey xs = sort_key vh_blsKey xs"
proof -
  have "sort_key vh_blsKey xs = sortValidatorsByBLSKey xs"
  proof (rule sort_key_inj_key_eq)
    show "mset xs = mset (sortValidatorsByBLSKey xs)"
      by (simp add: mset_sortValidatorsByBLSKey)
    show "inj_on vh_blsKey (set xs)"
      using assms by (simp add: distinct_map)
    show "sorted (map vh_blsKey (sortValidatorsByBLSKey xs))"
      by (rule sorted_sortValidatorsByBLSKey)
  qed
  then show ?thesis by simp
qed









section \<open>Properties of the Merkle tree\<close>

subsection \<open>The width\<close>

lemma storeNode_width [simp]: "width (storeNode t node) = width t"
  by (simp add: storeNode_def)

lemma generateLeaf_width [simp]: "width (snd (generateLeaf env t v)) = Suc (width t)"
  by (simp add: generateLeaf_def Let_def)

lemma generateLeaves_width: "width (snd (generateLeaves env t vs)) = width t + length vs"
proof (induction vs arbitrary: t)
  case Nil
  then show ?case by simp
next
  case (Cons v vs)
  obtain leaf t1 where leaf: "generateLeaf env t v = (leaf, t1)"
    by (cases "generateLeaf env t v")
  then have "width t1 = Suc (width t)"
    by (metis generateLeaf_width snd_conv)
  with Cons.IH [of "storeNode t1 leaf"] leaf show ?case
    by (cases "generateLeaves env (storeNode t1 leaf) vs") simp
qed

lemma generateNode_width [simp]: "width (snd (generateNode env t l r layer i)) = width t"
  by (simp add: generateNode_def Let_def split: sum.splits)

lemma generateParents_width: "width (snd (generateParents env t pairs layer i)) = width t"
proof (induction pairs arbitrary: t i)
  case Nil
  then show ?case by simp
next
  case (Cons pair pairs)
  obtain l r where pair: "pair = (l, r)" by (cases pair)
  obtain res t1 where node: "generateNode env t l r layer i = (res, t1)"
    by (cases "generateNode env t l r layer i")
  then have w1: "width t1 = width t"
    by (metis generateNode_width snd_conv)
  show ?case
  proof (cases res)
    case (Inl e)
    with node pair w1 show ?thesis by simp
  next
    case (Inr nodeData)
    obtain res2 t2 where rest:
      "generateParents env (storeNode t1 nodeData) pairs layer (i + 1) = (res2, t2)"
      by (cases "generateParents env (storeNode t1 nodeData) pairs layer (i + 1)")
    with Cons.IH [of "storeNode t1 nodeData" "i + 1"] w1 have "width t2 = width t"
      by simp
    with node pair Inr rest show ?thesis
      by (cases res2) simp_all
  qed
qed

lemma buildLayers_width: "width (snd (buildLayers env t nodes orphan layer)) = width t"
proof (induction env t nodes orphan layer rule: buildLayers.induct)
  case (1 env t nodes orphan layer)
  show ?case
  proof (cases "(1 < length nodes \<or> orphan \<noteq> None) \<and> nodes \<noteq> []")
    case True
    let ?r = "generateParents env t (fst (layerPairs nodes orphan)) layer 0"
    show ?thesis
    proof (cases "fst ?r")
      case (Inl e)
      with True show ?thesis
        by (subst buildLayers.simps) (simp add: generateParents_width)
    next
      case (Inr parents)
      from True Inr "1.IH" [OF _ _ refl Inr]
      have "width (snd (buildLayers env (snd ?r) parents (snd (layerPairs nodes orphan)) (layer + 1))) =
            width (snd ?r)"
        by blast
      with True Inr show ?thesis
        by (subst buildLayers.simps) (simp add: generateParents_width)
    qed
  next
    case False
    then show ?thesis
      by (subst buildLayers.simps) (auto split: list.splits)
  qed
qed

lemma build_width: "width (snd (build env t vs)) = width t + length vs"
proof -
  obtain hs t1 where leaves: "generateLeaves env t vs = (hs, t1)"
    by (cases "generateLeaves env t vs")
  then have "width t1 = width t + length vs"
    by (metis generateLeaves_width snd_conv)
  with leaves show ?thesis
    by (simp add: build_def buildLayers_width)
qed

lemma MerkleTree_new_width:
  assumes "MerkleTree_new env vs = Inr t"
  shows "width t = (if vs = [] then 0 else 2 * length vs)"
proof (cases "vs = []")
  case True
  with assms show ?thesis by (auto simp: MerkleTree_new_def)
next
  case False
  let ?t1 = "\<lparr>root = EMPTY_HASH env, width = length vs, hashToBuffer = Map.empty\<rparr>"
  obtain res t2 where built: "build env ?t1 vs = (res, t2)"
    by (cases "build env ?t1 vs")
  with build_width [of env ?t1 vs] have "width t2 = 2 * length vs"
    by simp
  with assms False built show ?thesis
    by (auto simp: MerkleTree_new_def Let_def split: sum.splits)
qed

lemma newBranches_width: "width (snd (newBranches env t path)) = width t"
proof (induction env t path rule: newBranches.induct)
  case (1 env t path)
  show ?case
  proof (cases "1 < length path")
    case False
    then show ?thesis by (subst newBranches.simps) simp
  next
    case True
    let ?left = "last (butlast path)"
    obtain res t1 where node:
      "generateNode env t (ni_hash ?left) (ni_hash (last path))
         (ni_layerIndex ?left + 1) (ni_nodeIndex ?left + 1) = (res, t1)"
      by (cases "generateNode env t (ni_hash ?left) (ni_hash (last path))
         (ni_layerIndex ?left + 1) (ni_nodeIndex ?left + 1)")
    then have w1: "width t1 = width t"
      by (metis generateNode_width snd_conv)
    show ?thesis
    proof (cases res)
      case (Inl e)
      with True node w1 show ?thesis
        by (subst newBranches.simps) (simp add: Let_def)
    next
      case (Inr newNode)
      show ?thesis
      proof (cases "getNode env (storeNode t1 newNode) (nd_hash newNode)")
        case (Inl e)
        with True node w1 Inr show ?thesis
          by (subst newBranches.simps) (simp add: Let_def)
      next
        case info: (Inr info)
        from "1.IH" [OF True refl refl refl node [symmetric] Inr info] w1
        have "width (snd (newBranches env (storeNode t1 newNode)
                (butlast (butlast path) @ [info]))) = width t"
          by simp
        with True node Inr info show ?thesis
          by (subst newBranches.simps) (simp add: Let_def)
      qed
    qed
  qed
qed

lemma append_width: "width (snd (MerkleTree_append env t v)) = Suc (width t)"
proof -
  obtain leaf t1 where leaf: "generateLeaf env t v = (leaf, t1)"
    by (cases "generateLeaf env t v")
  then have w1: "width t1 = Suc (width t)"
    by (metis generateLeaf_width snd_conv)
  have branches: "width (snd (newBranches env t1 path)) = Suc (width t)" for path
    by (simp add: newBranches_width w1)
  show ?thesis
    unfolding MerkleTree_append_def leaf
    using w1 branches
    by (auto simp: Let_def split: sum.splits prod.splits list.splits)
      (metis snd_conv)+
qed


subsection \<open>The constructor and append\<close>

lemma MerkleTree_new_empty: "MerkleTree_new env [] = Inr (emptyTree env)"
  by (simp add: MerkleTree_new_def emptyTree_def)

lemma MerkleTree_new_singleton:
  "MerkleTree_new env [v] =
     Inr \<lparr>root = hash env (LEAF_PREFIX env @ v), width = 2,
          hashToBuffer = [hash env (LEAF_PREFIX env @ v) \<mapsto> LEAF_PREFIX env @ v]\<rparr>"
  by (simp add: MerkleTree_new_def build_def generateLeaf_def storeNode_def Let_def
      buildLayers.simps [of _ _ "[x]" for x])

lemma clear_emptyTree: "clear env t = emptyTree env"
  by (simp add: clear_def emptyTree_def)

text \<open>
  C5 says the width is the number of leaves: \<open>new(L)\<close> has width \<open>|L|\<close> (0 and
  the \<^verbatim>\<open>EMPTY_HASH\<close> root for no leaves) and every \<^verbatim>\<open>append\<close> adds one. The
  code does the second and the empty case, but counts every initial leaf twice: the
  constructor sets the width to the number of initial values and \<^verbatim>\<open>_build\<close>
  then calls \<^verbatim>\<open>_generateLeaf\<close>, which adds one, for each of them. A tree built
  from one leaf has width 2 (and by \<open>MerkleTree_new_width\<close> a tree built from \<open>n > 0\<close>
  leaves has width \<open>2n\<close>).
\<close>

theorem MerkleTree_new_counts_leaves_twice:
  "MerkleTree_new env [] = Inr \<lparr>root = EMPTY_HASH env, width = 0, hashToBuffer = Map.empty\<rparr> \<and>
   MerkleTree_new env [v] =
     Inr \<lparr>root = hash env (LEAF_PREFIX env @ v), width = 2,
          hashToBuffer = [hash env (LEAF_PREFIX env @ v) \<mapsto> LEAF_PREFIX env @ v]\<rparr> \<and>
   width (snd (MerkleTree_append env t v)) = width t + 1"
  using MerkleTree_new_empty [of env] MerkleTree_new_singleton [of env v] append_width [of env t v]
  by (simp add: emptyTree_def)

lemma getNode_missing: "hashToBuffer t h = None \<Longrightarrow> getNode env t h = Inl (HashDoesNotExist h)"
  by (simp add: getNode_def)

lemma isLeaf_leaf_value: "length (LEAF_PREFIX env) = 1 \<Longrightarrow> isLeaf env (LEAF_PREFIX env @ v)"
  by (cases "LEAF_PREFIX env") (auto simp: isLeaf_def Buffer_slice_def)

lemma MerkleTree_append_empty:
  assumes distinct: "hash env (LEAF_PREFIX env @ v) \<noteq> EMPTY_HASH env"
    and prefix: "length (LEAF_PREFIX env) = 1"
  shows "MerkleTree_append env (emptyTree env) v =
           (Inl (HashDoesNotExist (EMPTY_HASH env)),
            \<lparr>root = EMPTY_HASH env, width = 1,
             hashToBuffer = [hash env (LEAF_PREFIX env @ v) \<mapsto> LEAF_PREFIX env @ v]\<rparr>)"
proof -
  let ?h = "hash env (LEAF_PREFIX env @ v)"
  let ?t1 = "\<lparr>root = EMPTY_HASH env, width = 1, hashToBuffer = [?h \<mapsto> LEAF_PREFIX env @ v]\<rparr>"
  have leaf: "generateLeaf env (emptyTree env) v =
      (\<lparr>nd_value = LEAF_PREFIX env @ v, nd_hash = ?h\<rparr>, ?t1)"
    by (simp add: generateLeaf_def emptyTree_def Let_def)
  have found: "\<exists>info. getNode env ?t1 ?h = Inr info"
    using distinct isLeaf_leaf_value [OF prefix, of v] by (simp add: getNode_def Let_def)
  have missing: "getNode env ?t1 (EMPTY_HASH env) = Inl (HashDoesNotExist (EMPTY_HASH env))"
    using distinct by (simp add: getNode_missing)
  from found obtain info where "getNode env ?t1 ?h = Inr info" ..
  with leaf missing show ?thesis
    by (simp add: MerkleTree_append_def)
qed

text \<open>
  C1 says that building a tree in one batch equals building it by appending the leaves
  one by one. In the code, \<^verbatim>\<open>append\<close> on the tree with no leaves throws: it looks
  its root \<^verbatim>\<open>EMPTY_HASH\<close> up among the stored nodes, where only the new leaf is
  (for a one-byte leaf prefix and a leaf that does not hash to \<^verbatim>\<open>EMPTY_HASH\<close>).
  So the sequential construction of any non-empty leaf sequence ends in an error, while
  the batch construction of one leaf has that leaf's hash as root.
\<close>

theorem MerkleTree_append_on_empty_tree_throws:
  assumes "hash env (LEAF_PREFIX env @ v) \<noteq> EMPTY_HASH env"
    and "length (LEAF_PREFIX env) = 1"
  shows "MerkleTree_new env [] = Inr (emptyTree env) \<and>
         fst (MerkleTree_append env (emptyTree env) v) = Inl (HashDoesNotExist (EMPTY_HASH env)) \<and>
         appendAll env (emptyTree env) (v # vs) = Inl (HashDoesNotExist (EMPTY_HASH env)) \<and>
         map_sum id root (MerkleTree_new env (v # [])) = Inr (hash env (LEAF_PREFIX env @ v))"
  using MerkleTree_append_empty [OF assms]
  by (simp add: MerkleTree_new_empty MerkleTree_new_singleton)

lemma exEnv_no_collision: "hash exEnv (LEAF_PREFIX exEnv @ [97]) \<noteq> EMPTY_HASH exEnv"
  by (simp add: exEnv_def exHash_def)

lemma exEnv_prefix: "length (LEAF_PREFIX exEnv) = 1"
  by (simp add: exEnv_def)

theorem MerkleTree_append_on_empty_tree_witness:
  "hash exEnv (LEAF_PREFIX exEnv @ [97]) \<noteq> EMPTY_HASH exEnv \<and>
   length (LEAF_PREFIX exEnv) = 1 \<and>
   appendAll exEnv (emptyTree exEnv) [[97]] = Inl (HashDoesNotExist (EMPTY_HASH exEnv)) \<and>
   map_sum id root (MerkleTree_new exEnv [[97]]) = Inr (hash exEnv (LEAF_PREFIX exEnv @ [97]))"
  using MerkleTree_append_on_empty_tree_throws [OF exEnv_no_collision exEnv_prefix, of "[]"]
    exEnv_no_collision exEnv_prefix
  by blast

subsection \<open>The spec's example: three leaves, then one appended\<close>

text \<open>The batch roots of three and of four leaves, for every environment.\<close>

lemma writeBigInt64BE_0: "writeBigInt64BE 0 = Inr [0, 0, 0, 0, 0, 0, 0, 0]"
  by (simp add: writeBigInt64BE_def)

lemma writeBigInt64BE_1: "writeBigInt64BE 1 = Inr [0, 0, 0, 0, 0, 0, 0, 1]"
  by (simp add: writeBigInt64BE_def)

lemmas buildLayers_unfold =
  buildLayers.simps [of _ _ "[]"]
  buildLayers.simps [of _ _ "[x]" for x]
  buildLayers.simps [of _ _ "[x, y]" for x y]
  buildLayers.simps [of _ _ "[x, y, z]" for x y z]
  buildLayers.simps [of _ _ "[x, y, z, w]" for x y z w]

lemma MerkleTree_new_three:
  "map_sum id (\<lambda>t. (root t, width t)) (MerkleTree_new env [a, b, c]) =
     Inr (hash env (BRANCH_PREFIX env @
            hash env (BRANCH_PREFIX env @ hash env (LEAF_PREFIX env @ a) @ hash env (LEAF_PREFIX env @ b)) @
            hash env (LEAF_PREFIX env @ c)), 6)"
  by (simp add: MerkleTree_new_def build_def generateLeaf_def storeNode_def generateNode_def
      writeInt8_def writeBigInt64BE_0 writeBigInt64BE_1 layerPairs_def Let_def
      buildLayers_unfold)

lemma MerkleTree_new_four:
  "map_sum id (\<lambda>t. (root t, width t)) (MerkleTree_new env [a, b, c, d]) =
     Inr (hash env (BRANCH_PREFIX env @
            hash env (BRANCH_PREFIX env @ hash env (LEAF_PREFIX env @ a) @ hash env (LEAF_PREFIX env @ b)) @
            hash env (BRANCH_PREFIX env @ hash env (LEAF_PREFIX env @ c) @ hash env (LEAF_PREFIX env @ d))), 8)"
  by (simp add: MerkleTree_new_def build_def generateLeaf_def storeNode_def generateNode_def
      writeInt8_def writeBigInt64BE_0 writeBigInt64BE_1 layerPairs_def Let_def
      buildLayers_unfold)

lemma getNode_hash: "getNode env t h = Inr info \<Longrightarrow> ni_hash info = h"
  by (auto simp: getNode_def Let_def split: option.splits sum.splits)

lemma getNode_long_value:
  assumes "hashToBuffer t h = Some v" and "9 \<le> length v"
  shows "\<exists>info. getNode env t h = Inr info"
  using assms by (auto simp: getNode_def Let_def readInt8_def readBigInt64BE_def)

lemma ceilLog2_7: "ceilLog2 7 = 3"
  by (simp add: ceilLog2.simps)

lemma isAppendPath_6_4: "\<not> isAppendPath 6 4"
  by (simp add: isAppendPath_def toInt32_def)

lemma isAppendPath_6_3: "isAppendPath 6 3"
  by (simp add: isAppendPath_def toInt32_def)

text \<open>
  The same for every hash of 32 bytes, with one-byte prefixes \<open>l\<close> and \<open>p\<close> and
  no collision among the hashes involved: appended to the tree built from \<open>a, b, c\<close>,
  the leaf \<open>d\<close> gives the root \<open>H(p, H(p, hA, hB), hD)\<close>. The path loop sees that
  the root is not on the path and its left child is, and then stops at
  \<^verbatim>\<open>if (currentNode.rightHash)\<close>; the leaf \<open>c\<close> is in no node of the new root.
  By \<open>MerkleTree_new_four\<close> the tree built from \<open>a, b, c, d\<close> has the root
  \<open>H(p, H(p, hA, hB), H(p, hC, hD))\<close>.
\<close>

lemma MerkleTree_append_three:
  fixes env :: MerkleEnv and a b c d :: bytes and l p :: "8 word"
  defines "H \<equiv> hash env"
  defines "hA \<equiv> H ([l] @ a)" and "hB \<equiv> H ([l] @ b)" and "hC \<equiv> H ([l] @ c)"
    and "hD \<equiv> H ([l] @ d)"
  defines "hAB \<equiv> H ([p] @ hA @ hB)"
  defines "hABC \<equiv> H ([p] @ hAB @ hC)"
  assumes size: "\<And>x. length (hash env x) = 32"
    and leafPrefix: "LEAF_PREFIX env = [l]"
    and branchPrefix: "BRANCH_PREFIX env = [p]"
    and prefixes: "l \<noteq> p" "sint p < 127"
    and distinct: "hD \<noteq> hABC" "hAB \<noteq> hD" "hAB \<noteq> hABC"
    and rootByte: "take 1 hABC \<noteq> [l]"
    and built: "MerkleTree_new env [a, b, c] = Inr t"
  shows "fst (MerkleTree_append env t d) = Inr (H ([p] @ hAB @ hD))"
proof -
  define Vab where "Vab = [p] @ [0] @ [0, 0, 0, 0, 0, 0, 0, 0] @ hA @ hB"
  define Vabc where "Vabc = [p] @ [1] @ [0, 0, 0, 0, 0, 0, 0, 0] @ hAB @ hC"
  define M where "M = [hA \<mapsto> [l] @ a, hB \<mapsto> [l] @ b, hC \<mapsto> [l] @ c, hAB \<mapsto> Vab, hABC \<mapsto> Vabc]"
  have sizes [simp]: "length hA = 32" "length hB = 32" "length hC = 32" "length hD = 32"
    "length hAB = 32" "length hABC = 32"
    by (simp_all add: hA_def hB_def hC_def hD_def hAB_def hABC_def H_def size)
  have "MerkleTree_new env [a, b, c] = Inr \<lparr>root = hABC, width = 6, hashToBuffer = M\<rparr>"
    by (simp add: MerkleTree_new_def build_def generateLeaf_def storeNode_def generateNode_def
      writeInt8_def writeBigInt64BE_0 layerPairs_def Let_def buildLayers_unfold
      leafPrefix branchPrefix hA_def hB_def hC_def hAB_def hABC_def H_def M_def Vab_def Vabc_def)
  with built have t: "t = \<lparr>root = hABC, width = 6, hashToBuffer = M\<rparr>"
    by simp
  define t1 where "t1 = \<lparr>root = hABC, width = 7, hashToBuffer = M(hD \<mapsto> [l] @ d)\<rparr>"
  have leaf: "generateLeaf env t d = (\<lparr>nd_value = [l] @ d, nd_hash = hD\<rparr>, t1)"
    by (simp add: t t1_def generateLeaf_def Let_def leafPrefix hD_def H_def)
  define infoD where "infoD = \<lparr>ni_type = LEAF, ni_hash = hD, ni_value = [l] @ d,
      ni_leftHash = [], ni_rightHash = [], ni_layerIndex = 0, ni_nodeIndex = 0\<rparr>"
  have nodeD: "getNode env t1 hD = Inr infoD"
    using distinct(1)
    by (simp add: t1_def infoD_def getNode_def Let_def isLeaf_def Buffer_slice_def leafPrefix)
  define infoRoot where "infoRoot = \<lparr>ni_type = ROOT, ni_hash = hABC, ni_value = Vabc,
      ni_leftHash = hAB, ni_rightHash = hC, ni_layerIndex = 0, ni_nodeIndex = 0\<rparr>"
  have nodeRoot: "getNode env t1 hABC = Inr infoRoot"
    using distinct(1)
    by (simp add: t1_def M_def Vabc_def infoRoot_def getNode_def Let_def Buffer_slice_def
        Buffer_slice_from_def)
  define infoAB where "infoAB = \<lparr>ni_type = BRANCH, ni_hash = hAB, ni_value = Vab,
      ni_leftHash = hA, ni_rightHash = hB, ni_layerIndex = sint p, ni_nodeIndex = 0\<rparr>"
  have nodeAB: "getNode env t1 hAB = Inr infoAB"
    using distinct prefixes(1)
    by (simp add: t1_def M_def Vab_def infoAB_def getNode_def Let_def isLeaf_def Buffer_slice_def
        Buffer_slice_from_def leafPrefix readInt8_def readBigInt64BE_def bigEndian_def)
  have height: "getHeight t1 = 4"
    by (simp add: t1_def getHeight_def ceilLog2_7)
  have widthT1: "int (width t1) - 1 = 6"
    by (simp add: t1_def)
  have rootNoLeaf: "\<not> isLeaf env (ni_hash infoRoot)"
    using rootByte by (auto simp: infoRoot_def isLeaf_def Buffer_slice_def leafPrefix)
  have leftOfRoot: "ni_leftHash infoRoot = hAB"
    by (simp add: infoRoot_def)
  have path: "collectAppendPath env t1 4 0 infoRoot [] = Inr [infoAB]"
    by (subst collectAppendPath.simps)
      (simp add: widthT1 isAppendPath_6_4 isAppendPath_6_3 rootNoLeaf leftOfRoot nodeAB
        Buffer_truthy_def)
  define Vnew where "Vnew = [p] @ [word_of_int (sint p + 1)] @ [0, 0, 0, 0, 0, 0, 0, 1] @ hAB @ hD"
  define hNew where "hNew = H ([p] @ hAB @ hD)"
  define t2 where "t2 = t1\<lparr>hashToBuffer := (hashToBuffer t1)(hNew \<mapsto> Vnew)\<rparr>"
  have lower: "- 128 \<le> sint p + 1"
    using sint_ge [of p] by simp
  have node: "generateNode env t1 (ni_hash infoAB) (ni_hash infoD)
      (ni_layerIndex infoAB + 1) (ni_nodeIndex infoAB + 1) =
      (Inr \<lparr>nd_value = Vnew, nd_hash = hNew\<rparr>, t2)"
    using prefixes(2) lower
    by (simp add: infoAB_def infoD_def t2_def Vnew_def hNew_def generateNode_def writeInt8_def
        writeBigInt64BE_1 Let_def branchPrefix H_def)
  have stored: "storeNode t2 \<lparr>nd_value = Vnew, nd_hash = hNew\<rparr> = t2"
    by (simp add: storeNode_def t2_def)
  have "\<exists>info. getNode env t2 hNew = Inr info"
    by (rule getNode_long_value [where v = Vnew]) (simp_all add: t2_def Vnew_def)
  then obtain infoNew where nodeNew: "getNode env t2 hNew = Inr infoNew" ..
  then have hashNew: "ni_hash infoNew = hNew"
    by (rule getNode_hash)
  have single: "newBranches env t2 [infoNew] = (Inr [infoNew], t2)"
    by (subst newBranches.simps) simp
  have branches: "newBranches env t1 [infoAB, infoD] = (Inr [infoNew], t2)"
    by (subst newBranches.simps) (simp add: node stored nodeNew single Let_def)
  have rootT1: "root t1 = hABC"
    by (simp add: t1_def)
  have hashD: "ni_hash infoD = hD"
    by (simp add: infoD_def)
  show ?thesis
    by (simp add: MerkleTree_append_def leaf rootT1 nodeD nodeRoot height path hashD branches
        hashNew hNew_def)
qed

text \<open>
  The spec's example in the example environment: the tree built from \<open>a, b, c\<close> and
  then appended \<open>d\<close> gets the root \<open>H(H(a,b), d)\<close>, which leaves \<open>c\<close> out; the
  tree built from \<open>a, b, c, d\<close> has the root \<open>H(H(a,b), H(c,d))\<close>. The loop that
  collects the append path stops in its first round at \<^verbatim>\<open>if (currentNode.rightHash)\<close>.
\<close>

lemma MerkleTree_example_batch_root:
  "map_sum id root (MerkleTree_new exEnv [[97], [98], [99], [100]]) =
     Inr (exHash ([1] @ exHash ([1] @ exHash [0, 97] @ exHash [0, 98]) @
                        exHash ([1] @ exHash [0, 99] @ exHash [0, 100])))"
  by code_simp

lemma MerkleTree_example_append_root:
  "(case MerkleTree_new exEnv [[97], [98], [99]] of
      Inl e \<Rightarrow> Inl e
    | Inr t \<Rightarrow> fst (MerkleTree_append exEnv t [100])) =
     Inr (exHash ([1] @ exHash ([1] @ exHash [0, 97] @ exHash [0, 98]) @ exHash [0, 100]))"
  by code_simp

lemma MerkleTree_example_roots_differ:
  "exHash ([1] @ exHash ([1] @ exHash [0, 97] @ exHash [0, 98]) @ exHash [0, 100]) \<noteq>
   exHash ([1] @ exHash ([1] @ exHash [0, 97] @ exHash [0, 98]) @
                        exHash ([1] @ exHash [0, 99] @ exHash [0, 100]))"
  by code_simp

end
